theory Spec2Isabelle
  imports Main "HOL-Library.Sublist" "HOL-Library.AList"
begin

section \<open>Python strings\<close>

text \<open>
  A Python \<open>str\<close> is modelled as a \<open>string\<close> whose characters are the code points
  below 256. \<open>endswith\<close> is \<open>str.endswith\<close>, \<open>replace_str\<close> is \<open>str.replace\<close> (all
  non-overlapping occurrences, scanned from the left), \<open>lower\<close> is \<open>str.lower\<close> and
  \<open>contains_str\<close> is the substring test \<open>sub in s\<close>.
\<close>

definition endswith :: "string \<Rightarrow> string \<Rightarrow> bool" where
  "endswith s suf = suffix suf s"

text \<open>
  \<open>replace_from old new k s\<close> scans \<open>s\<close> with \<open>k\<close> characters of a match still to be
  skipped. An empty \<open>old\<close> matches before every character and at the end, as in Python.
\<close>

fun replace_from :: "string \<Rightarrow> string \<Rightarrow> nat \<Rightarrow> string \<Rightarrow> string" where
  "replace_from old new k [] = []"
| "replace_from old new (Suc k) (c # cs) = replace_from old new k cs"
| "replace_from old new 0 (c # cs) =
     (if prefix old (c # cs) then new @ replace_from old new (length old - 1) cs
      else c # replace_from old new 0 cs)"

definition replace_str :: "string \<Rightarrow> string \<Rightarrow> string \<Rightarrow> string" where
  "replace_str s old new =
     (if old = [] then new @ concat (map (\<lambda>c. c # new) s)
      else replace_from old new 0 s)"

definition lower_char :: "char \<Rightarrow> char" where
  "lower_char c =
     (let n = (of_char c :: nat) in
      if (65 \<le> n \<and> n \<le> 90) \<or> (192 \<le> n \<and> n \<le> 222 \<and> n \<noteq> 215)
      then char_of (n + 32) else c)"

definition lower :: "string \<Rightarrow> string" where
  "lower s = map lower_char s"

fun contains_str :: "string \<Rightarrow> string \<Rightarrow> bool" where
  "contains_str sub [] = (sub = [])"
| "contains_str sub (c # cs) = (prefix sub (c # cs) \<or> contains_str sub cs)"

section \<open>The parser object and the keys the triggers derive\<close>

text \<open>
  \<open>GCPXLSXParser.__init__\<close> stores the bucket and the three blob keys.
\<close>

record parser =
  bucket_name :: string
  source_blob :: string
  destination_blob :: string
  error_blob :: string

text \<open>
  The constructor calls of \<open>convert_xlsx_to_json\<close> (line 165) and of
  \<open>convert_xlsx_to_json_http\<close> (lines 185 to 189).
\<close>

definition event_parser :: "string \<Rightarrow> string \<Rightarrow> parser" where
  "event_parser b src =
     \<lparr>bucket_name = b, source_blob = src,
      destination_blob = replace_str (replace_str src ''.xlsx'' ''.json'') ''.xls'' ''.json'',
      error_blob = replace_str src ''.xlsx'' ''_error.log''\<rparr>"

definition http_parser :: "string \<Rightarrow> string \<Rightarrow> parser" where
  "http_parser b src =
     \<lparr>bucket_name = b, source_blob = src,
      destination_blob = replace_str (replace_str src ''.xlsx'' ''.json'') ''.xls'' ''.json'',
      error_blob = replace_str (replace_str src ''.xlsx'' ''_error.log'') ''.xls'' ''_error.log''\<rparr>"

definition event_accepts :: "string \<Rightarrow> bool" where
  "event_accepts src = (endswith src ''.xlsx'' \<or> endswith src ''.xls'')"

section \<open>Python values and exceptions\<close>

text \<open>
  Exceptions are values: a class and the message that \<open>str(e)\<close> returns. Every class
  here is a subclass of \<open>Exception\<close>; \<open>RequestException\<close> is the one class that
  \<open>forward_to_cloud_run\<close> catches. The messages of the exceptions that the
  interpreter raises are those of CPython 3.11.
\<close>

datatype exn_class = ValueError | TypeError | AttributeError | KeyError
  | RequestException | StorageError | OtherError

datatype exn = Exn exn_class string

fun str_exn :: "exn \<Rightarrow> string" where
  "str_exn (Exn c m) = m"

fun is_request_exception :: "exn \<Rightarrow> bool" where
  "is_request_exception (Exn c m) = (c = RequestException)"

text \<open>
  Scalars are the values a cell or a JSON leaf can hold. \<open>SNaN\<close> is the float
  \<open>nan\<close> that pandas stores for a missing cell, \<open>STimestamp y m d\<close> a
  \<open>pd.Timestamp\<close> (at midnight), \<open>SNaT\<close> is \<open>pd.NaT\<close>, and \<open>SOther s\<close> stands for any
  other object, given by what \<open>str\<close> returns for it. Other floats are not modelled.
\<close>

datatype scalar = SNone | SBool bool | SInt int | SNaN | SStr string
  | STimestamp nat nat nat | SNaT | SOther string

datatype pyval = PScalar scalar | PList "pyval list" | PDict "(string \<times> pyval) list"

abbreviation PStr :: "string \<Rightarrow> pyval" where
  "PStr s \<equiv> PScalar (SStr s)"

abbreviation PNone :: pyval where
  "PNone \<equiv> PScalar SNone"

subsection \<open>Decimal digits, \<open>str\<close>, \<open>strftime\<close>\<close>

definition digit_char :: "nat \<Rightarrow> char" where
  "digit_char n = char_of (48 + n mod 10)"

fun digits :: "nat \<Rightarrow> string" where
  "digits n = (if n < 10 then [digit_char n] else digits (n div 10) @ [digit_char n])"

declare digits.simps [simp del]

definition dec_int :: "int \<Rightarrow> string" where
  "dec_int i = (if i < 0 then CHR ''-'' # digits (nat (- i)) else digits (nat i))"

definition zero_pad :: "nat \<Rightarrow> string \<Rightarrow> string" where
  "zero_pad w s = replicate (w - length s) CHR ''0'' @ s"

text \<open>
  \<open>obj.strftime("%Y-%m-%d")\<close> of a timestamp of year \<open>y\<close>, month \<open>m\<close> and day \<open>d\<close>,
  as the C library of the platform (glibc) writes it: the year in decimal without
  padding (four digits from the year 1000 on), month and day padded to two digits. A
  timestamp has a month from 1 to 12 and a day from 1 to 31.
\<close>

definition strftime_ymd :: "nat \<Rightarrow> nat \<Rightarrow> nat \<Rightarrow> string" where
  "strftime_ymd y m d =
     digits y @ ''-'' @ zero_pad 2 (digits m) @ ''-'' @ zero_pad 2 (digits d)"

fun py_str :: "scalar \<Rightarrow> string" where
  "py_str SNone = ''None''"
| "py_str (SBool b) = (if b then ''True'' else ''False'')"
| "py_str (SInt i) = dec_int i"
| "py_str SNaN = ''nan''"
| "py_str (SStr s) = s"
| "py_str (STimestamp y m d) = strftime_ymd y m d @ '' 00:00:00''"
| "py_str SNaT = ''NaT''"
| "py_str (SOther s) = s"

text \<open>\<open>pd.isna\<close> on a scalar, and \<open>isinstance(obj, pd.Timestamp)\<close>.\<close>

fun isna :: "scalar \<Rightarrow> bool" where
  "isna SNone = True"
| "isna SNaN = True"
| "isna SNaT = True"
| "isna s = False"

fun is_timestamp :: "scalar \<Rightarrow> bool" where
  "is_timestamp (STimestamp y m d) = True"
| "is_timestamp s = False"

text \<open>\<open>GCPXLSXParser.json_serializer\<close> (lines 33 to 38), \<open>None\<close> being \<open>SNone\<close>.\<close>

definition json_serializer :: "scalar \<Rightarrow> scalar" where
  "json_serializer obj =
     (if is_timestamp obj then
        (case obj of STimestamp y m d \<Rightarrow> SStr (strftime_ymd y m d) | _ \<Rightarrow> obj)
      else if isna obj then SNone
      else SStr (py_str obj))"

subsection \<open>Truth values, membership, \<open>dict.get\<close>\<close>

fun truthy :: "pyval \<Rightarrow> bool" where
  "truthy (PScalar SNone) = False"
| "truthy (PScalar (SBool b)) = b"
| "truthy (PScalar (SInt i)) = (i \<noteq> 0)"
| "truthy (PScalar (SStr s)) = (s \<noteq> [])"
| "truthy (PScalar s) = True"
| "truthy (PList xs) = (xs \<noteq> [])"
| "truthy (PDict kvs) = (kvs \<noteq> [])"

fun type_name :: "pyval \<Rightarrow> string" where
  "type_name (PScalar SNone) = ''NoneType''"
| "type_name (PScalar (SBool b)) = ''bool''"
| "type_name (PScalar (SInt i)) = ''int''"
| "type_name (PScalar SNaN) = ''float''"
| "type_name (PScalar (SStr s)) = ''str''"
| "type_name (PScalar (STimestamp y m d)) = ''Timestamp''"
| "type_name (PScalar SNaT) = ''NaTType''"
| "type_name (PScalar (SOther s)) = ''object''"
| "type_name (PList xs) = ''list''"
| "type_name (PDict kvs) = ''dict''"

text \<open>
  \<open>key in obj\<close>: a key of a dict, an element of a list, a substring of a string; any
  other value is not iterable and the test raises \<open>TypeError\<close>.
\<close>

fun py_contains :: "pyval \<Rightarrow> string \<Rightarrow> exn + bool" where
  "py_contains (PDict kvs) k = Inr (k \<in> set (map fst kvs))"
| "py_contains (PList xs) k = Inr (PStr k \<in> set xs)"
| "py_contains (PScalar (SStr s)) k = Inr (contains_str k s)"
| "py_contains v k =
     Inl (Exn TypeError (''argument of type '' @ [CHR 0x27] @ type_name v @ [CHR 0x27]
            @ '' is not iterable''))"

text \<open>\<open>obj.get(key, default)\<close>: only a dict has the method.\<close>

fun py_get :: "pyval \<Rightarrow> string \<Rightarrow> pyval \<Rightarrow> exn + pyval" where
  "py_get (PDict kvs) k dflt = Inr (case map_of kvs k of Some v \<Rightarrow> v | None \<Rightarrow> dflt)"
| "py_get v k dflt =
     Inl (Exn AttributeError ([CHR 0x27] @ type_name v @ [CHR 0x27]
            @ '' object has no attribute '' @ [CHR 0x27] @ ''get'' @ [CHR 0x27]))"

text \<open>\<open>d[key] = value\<close> on an insertion-ordered dict with unique keys.\<close>

definition dict_set :: "('k \<times> 'v) list \<Rightarrow> 'k \<Rightarrow> 'v \<Rightarrow> ('k \<times> 'v) list" where
  "dict_set d k v = AList.update k v d"

definition dict_of_items :: "('k \<times> 'v) list \<Rightarrow> ('k \<times> 'v) list" where
  "dict_of_items kvs = foldl (\<lambda>d (k, v). dict_set d k v) [] kvs"

section \<open>Data frames and workbooks\<close>

text \<open>
  A \<open>DataFrame\<close> is its column labels and its rows of cells, in order. The pandas
  operations the parser calls are \<open>df.isna().sum().sum()\<close> (\<open>isna_count\<close>),
  \<open>df.dropna(axis=1, how="all")\<close> (\<open>dropna_columns\<close>), \<open>df.dropna(axis=0, how="all")\<close>
  (\<open>dropna_rows\<close>), \<open>df.empty\<close> (\<open>df_empty\<close>: some axis has length 0) and
  \<open>df.to_dict(orient="records")\<close> (\<open>to_dict_records\<close>). A cell beyond the end of a
  short row reads as missing. Column labels are strings, as pandas makes them for
  header cells that hold text (and for blank ones, which it names). A header cell
  that pandas reads as a date gives a label that is not a string, and on such a key
  \<open>json.dumps\<close> raises; tables with such labels are outside this model.
\<close>

record dataframe =
  columns :: "string list"
  rows :: "scalar list list"

definition cell_at :: "scalar list \<Rightarrow> nat \<Rightarrow> scalar" where
  "cell_at r j = (if j < length r then r ! j else SNaN)"

definition isna_count :: "dataframe \<Rightarrow> nat" where
  "isna_count df = sum_list (map (\<lambda>r. length (filter isna r)) (rows df))"

definition kept_columns :: "dataframe \<Rightarrow> nat list" where
  "kept_columns df =
     filter (\<lambda>j. \<exists>r \<in> set (rows df). \<not> isna (cell_at r j)) [0..<length (columns df)]"

definition dropna_columns :: "dataframe \<Rightarrow> dataframe" where
  "dropna_columns df =
     \<lparr>columns = map (\<lambda>j. columns df ! j) (kept_columns df),
      rows = map (\<lambda>r. map (cell_at r) (kept_columns df)) (rows df)\<rparr>"

definition dropna_rows :: "dataframe \<Rightarrow> dataframe" where
  "dropna_rows df = df\<lparr>rows := filter (\<lambda>r. \<not> list_all isna r) (rows df)\<rparr>"

definition df_empty :: "dataframe \<Rightarrow> bool" where
  "df_empty df = (columns df = [] \<or> rows df = [])"

definition to_dict_records :: "dataframe \<Rightarrow> pyval" where
  "to_dict_records df =
     PList (map (\<lambda>r. PDict (dict_of_items (zip (columns df) (map PScalar r)))) (rows df))"

text \<open>
  A \<open>pd.ExcelFile\<close>: \<open>xls.sheet_names\<close>, and \<open>xls.parse(sheet_name, dtype=str,
  header=h)\<close>, which returns a data frame or raises. What pandas reads from the bytes of
  a sheet is not part of the repository, so both readings of a sheet are data of the
  workbook.
\<close>

datatype header = HeaderNone | Header0

record excel_file =
  sheet_names :: "string list"
  parse_sheet :: "string \<Rightarrow> header \<Rightarrow> exn + dataframe"

section \<open>The collaborators: storage, the decoder, the remote parser\<close>

text \<open>
  A blob is named by its bucket and its key; the store maps the blobs that exist to
  their content (the text that \<open>upload_from_string\<close> stored; \<open>download_as_bytes\<close> and
  \<open>download_as_text\<close> return the same characters, the UTF-8 codec is not modelled).
  The environment says which storage calls raise (by call and blob, not by time), what
  \<open>pd.ExcelFile\<close> decodes from given bytes with a given engine, what
  \<open>storage_client.bucket\<close> makes of a bucket name, what the remote endpoint answers to
  \<open>requests.post(CLOUD_RUN_URL, json={bucket_name, file_name}, timeout=300)\<close>, and how
  Python formats a list or a dict inside a message. Calls of \<open>logging\<close> write to the
  local log only and are left out.
\<close>

type_synonym blob_id = "string \<times> string"

type_synonym store = "blob_id \<Rightarrow> string option"

datatype engine = Xlrd | Openpyxl

record response =
  status_code :: nat
  json_result :: "exn + pyval"

record env =
  exists_fault :: "blob_id \<Rightarrow> exn option"
  bytes_fault :: "blob_id \<Rightarrow> exn option"
  text_fault :: "blob_id \<Rightarrow> exn option"
  upload_fault :: "blob_id \<Rightarrow> exn option"
  read_excel :: "engine \<Rightarrow> string \<Rightarrow> exn + excel_file"
  make_bucket :: "pyval \<Rightarrow> exn + string"
  post :: "string \<Rightarrow> string \<Rightarrow> exn + response"
  repr_of :: "pyval \<Rightarrow> string"

definition not_found :: "blob_id \<Rightarrow> exn" where
  "not_found b = Exn StorageError (''404 No such object: '' @ fst b @ ''/'' @ snd b)"

definition blob_exists :: "env \<Rightarrow> blob_id \<Rightarrow> store \<Rightarrow> exn + bool" where
  "blob_exists ev b st =
     (case exists_fault ev b of Some e \<Rightarrow> Inl e | None \<Rightarrow> Inr (st b \<noteq> None))"

definition download_as_bytes :: "env \<Rightarrow> blob_id \<Rightarrow> store \<Rightarrow> exn + string" where
  "download_as_bytes ev b st =
     (case bytes_fault ev b of Some e \<Rightarrow> Inl e
      | None \<Rightarrow> (case st b of None \<Rightarrow> Inl (not_found b) | Some data \<Rightarrow> Inr data))"

definition download_as_text :: "env \<Rightarrow> blob_id \<Rightarrow> store \<Rightarrow> exn + string" where
  "download_as_text ev b st =
     (case text_fault ev b of Some e \<Rightarrow> Inl e
      | None \<Rightarrow> (case st b of None \<Rightarrow> Inl (not_found b) | Some data \<Rightarrow> Inr data))"

definition upload_from_string :: "env \<Rightarrow> blob_id \<Rightarrow> string \<Rightarrow> store \<Rightarrow> (exn + unit) \<times> store" where
  "upload_from_string ev b data st =
     (case upload_fault ev b of Some e \<Rightarrow> (Inl e, st)
      | None \<Rightarrow> (Inr (), st(b \<mapsto> data)))"

section \<open>The parser's methods\<close>

text \<open>\<open>GCPXLSXParser.detect_complexity\<close> (lines 40 to 50): the loop over the sheet names.\<close>

definition structured_names :: "string list" where
  "structured_names = [''overview'', ''metadata schema'', ''report'']"

fun detect_loop :: "excel_file \<Rightarrow> string list \<Rightarrow> exn + bool" where
  "detect_loop xls [] = Inr False"
| "detect_loop xls (sheet_name # rest) =
     (case parse_sheet xls sheet_name HeaderNone of
        Inl e \<Rightarrow> Inl e
      | Inr df \<Rightarrow>
          if isna_count df > 0 then Inr True
          else if lower sheet_name \<in> set structured_names then Inr True
          else detect_loop xls rest)"

definition detect_complexity :: "excel_file \<Rightarrow> exn + bool" where
  "detect_complexity xls = detect_loop xls (sheet_names xls)"

text \<open>\<open>GCPXLSXParser.log_error\<close> (lines 52 to 59).\<close>

definition log_error :: "env \<Rightarrow> parser \<Rightarrow> string \<Rightarrow> store \<Rightarrow> (exn + unit) \<times> store" where
  "log_error ev p message st =
     (let eb = (bucket_name p, error_blob p) in
      case blob_exists ev eb st of
        Inl e \<Rightarrow> (Inl e, st)
      | Inr ex \<Rightarrow>
          (case (if ex then download_as_text ev eb st else Inr []) of
             Inl e \<Rightarrow> (Inl e, st)
           | Inr existing_log \<Rightarrow>
               upload_from_string ev eb (existing_log @ message @ [CHR 0x0A]) st))"

text \<open>
  \<open>GCPXLSXParser.forward_to_cloud_run\<close> (lines 61 to 85). \<open>catch_request\<close> is its
  \<open>except requests.exceptions.RequestException\<close> clause; \<open>py_format\<close> is the
  \<open>{...}\<close> of an f-string.
\<close>

definition error_descriptor :: "string \<Rightarrow> pyval" where
  "error_descriptor m = PDict [(''error'', PStr m)]"

definition py_format :: "env \<Rightarrow> pyval \<Rightarrow> string" where
  "py_format ev v = (case v of PScalar s \<Rightarrow> py_str s | _ \<Rightarrow> repr_of ev v)"

definition catch_request :: "exn + pyval \<Rightarrow> exn + pyval" where
  "catch_request r =
     (case r of
        Inl e \<Rightarrow>
          if is_request_exception e
          then Inr (error_descriptor (''Failed to communicate with Cloud Run: '' @ str_exn e))
          else Inl e
      | Inr v \<Rightarrow> Inr v)"

definition forward_to_cloud_run :: "env \<Rightarrow> parser \<Rightarrow> exn + pyval" where
  "forward_to_cloud_run ev p =
     catch_request
       (case post ev (bucket_name p) (source_blob p) of
          Inl e \<Rightarrow> Inl e
        | Inr resp \<Rightarrow>
            (case json_result resp of
               Inl e \<Rightarrow> Inl e
             | Inr response_data \<Rightarrow>
                 if status_code resp = 200 then Inr response_data
                 else
                   (case py_get response_data ''error'' (PStr ''Unknown error'') of
                      Inl e \<Rightarrow> Inl e
                    | Inr v \<Rightarrow>
                        Inr (error_descriptor (''Cloud Run failed: '' @ py_format ev v)))))"

section \<open>\<open>json.dumps(data_dict, indent=4, default=self.json_serializer)\<close>\<close>

text \<open>
  The encoder writes \<open>None\<close>, booleans, integers, floats and strings itself (the float
  \<open>nan\<close> as the token \<open>NaN\<close>) and calls \<open>default\<close> only for an object it cannot
  write, encoding what \<open>default\<close> returns in its place. Strings are written with
  \<open>ensure_ascii\<close>; with \<open>indent=4\<close> every item of a non-empty list or dict stands on a
  line of its own, items are separated by a comma, a key from its value by a colon and
  a space.
\<close>

definition hex_digit :: "nat \<Rightarrow> char" where
  "hex_digit n = (if n < 10 then char_of (48 + n) else char_of (87 + n))"

definition escape_char :: "char \<Rightarrow> string" where
  "escape_char c =
     (let n = (of_char c :: nat) in
      if n = 34 then [CHR 0x5C, CHR 0x22]
      else if n = 92 then [CHR 0x5C, CHR 0x5C]
      else if n = 10 then [CHR 0x5C, CHR ''n'']
      else if n = 13 then [CHR 0x5C, CHR ''r'']
      else if n = 9 then [CHR 0x5C, CHR ''t'']
      else if n = 8 then [CHR 0x5C, CHR ''b'']
      else if n = 12 then [CHR 0x5C, CHR ''f'']
      else if 32 \<le> n \<and> n \<le> 126 then [c]
      else [CHR 0x5C, CHR ''u'', CHR ''0'', CHR ''0'', hex_digit (n div 16), hex_digit (n mod 16)])"

definition json_str :: "string \<Rightarrow> string" where
  "json_str s = [CHR 0x22] @ concat (map escape_char s) @ [CHR 0x22]"

fun encode_basic :: "scalar \<Rightarrow> string option" where
  "encode_basic SNone = Some ''null''"
| "encode_basic (SBool b) = Some (if b then ''true'' else ''false'')"
| "encode_basic (SInt i) = Some (dec_int i)"
| "encode_basic SNaN = Some ''NaN''"
| "encode_basic (SStr s) = Some (json_str s)"
| "encode_basic s = None"

function dumps_scalar :: "scalar \<Rightarrow> string" where
  "dumps_scalar s =
     (case encode_basic s of Some t \<Rightarrow> t | None \<Rightarrow> dumps_scalar (json_serializer s))"
  by pat_completeness auto
termination
proof (relation "measure (\<lambda>s. if encode_basic s = None then 1 else 0)")
  show "wf (measure (\<lambda>s. if encode_basic s = None then 1 else (0::nat)))"
    by simp
next
  fix s :: scalar
  assume "encode_basic s = None"
  then show "(json_serializer s, s) \<in> measure (\<lambda>s. if encode_basic s = None then 1 else (0::nat))"
    by (cases s) (simp_all add: json_serializer_def)
qed

declare dumps_scalar.simps [simp del]

definition newline_indent :: "nat \<Rightarrow> string" where
  "newline_indent level = CHR 0x0A # replicate (4 * level) CHR '' ''"

fun dumps_value :: "nat \<Rightarrow> pyval \<Rightarrow> string"
  and dumps_list :: "nat \<Rightarrow> pyval list \<Rightarrow> string"
  and dumps_dict :: "nat \<Rightarrow> (string \<times> pyval) list \<Rightarrow> string" where
  "dumps_value level (PScalar s) = dumps_scalar s"
| "dumps_value level (PList xs) =
     (if xs = [] then ''[]''
      else ''['' @ newline_indent (Suc level) @ dumps_list (Suc level) xs
           @ newline_indent level @ '']'')"
| "dumps_value level (PDict kvs) =
     (if kvs = [] then ''{}''
      else ''{'' @ newline_indent (Suc level) @ dumps_dict (Suc level) kvs
           @ newline_indent level @ ''}'')"
| "dumps_list level [] = []"
| "dumps_list level [x] = dumps_value level x"
| "dumps_list level (x # y # ys) =
     dumps_value level x @ '','' @ newline_indent level @ dumps_list level (y # ys)"
| "dumps_dict level [] = []"
| "dumps_dict level [(k, v)] = json_str k @ '': '' @ dumps_value level v"
| "dumps_dict level ((k, v) # kv # kvs) =
     json_str k @ '': '' @ dumps_value level v @ '','' @ newline_indent level
     @ dumps_dict level (kv # kvs)"

definition json_dumps :: "pyval \<Rightarrow> string" where
  "json_dumps v = dumps_value 0 v"

section \<open>\<open>GCPXLSXParser.parse\<close>\<close>

definition failed_message :: string where
  "failed_message = ''Failed to process XLSX file.''"

definition created_message :: string where
  "created_message = ''JSON file successfully created in GCS.''"

text \<open>Lines 98 to 110: the engine follows the key's suffix; a decode error is rewrapped.\<close>

definition open_workbook :: "env \<Rightarrow> parser \<Rightarrow> string \<Rightarrow> exn + excel_file" where
  "open_workbook ev p excel_data =
     (if endswith (source_blob p) ''.xls'' then
        (case read_excel ev Xlrd excel_data of
           Inl e \<Rightarrow> Inl (Exn ValueError
             (''Failed to read .xls file. Ensure xlrd==1.2.0 is installed. Error: '' @ str_exn e))
         | Inr xls \<Rightarrow> Inr xls)
      else
        (case read_excel ev Openpyxl excel_data of
           Inl e \<Rightarrow> Inl (Exn ValueError (''Invalid .xlsx file format: '' @ str_exn e))
         | Inr xls \<Rightarrow> Inr xls))"

text \<open>
  Lines 114 to 117, run for a complex workbook: \<open>Some r\<close> is \<open>return r\<close>, \<open>None\<close> falls
  through to the local conversion.
\<close>

definition try_cloud_run :: "env \<Rightarrow> parser \<Rightarrow> exn + pyval option" where
  "try_cloud_run ev p =
     (case forward_to_cloud_run ev p of
        Inl e \<Rightarrow> Inl e
      | Inr cloud_run_response \<Rightarrow>
          (case py_contains cloud_run_response ''error'' of
             Inl e \<Rightarrow> Inl e
           | Inr has_error \<Rightarrow> Inr (if \<not> has_error then Some cloud_run_response else None)))"

text \<open>
  The loop of lines 121 to 137 over the sheet names, with \<open>data_dict\<close> as accumulator:
  \<open>Inl (sheet_name, e)\<close> is the sheet whose conversion raised \<open>e\<close>.
\<close>

fun convert_sheets :: "excel_file \<Rightarrow> string list \<Rightarrow> (string \<times> pyval) list
    \<Rightarrow> (string \<times> exn) + (string \<times> pyval) list" where
  "convert_sheets xls [] data_dict = Inr data_dict"
| "convert_sheets xls (sheet_name # rest) data_dict =
     (case parse_sheet xls sheet_name Header0 of
        Inl e \<Rightarrow> Inl (sheet_name, e)
      | Inr df0 \<Rightarrow>
          (let df = dropna_rows (dropna_columns df0) in
           if df_empty df then convert_sheets xls rest data_dict
           else convert_sheets xls rest (dict_set data_dict sheet_name (to_dict_records df))))"

text \<open>Lines 119 to 147: the local conversion and the upload.\<close>

definition process_simple :: "env \<Rightarrow> parser \<Rightarrow> excel_file \<Rightarrow> store \<Rightarrow> (exn + pyval) \<times> store" where
  "process_simple ev p xls st =
     (case convert_sheets xls (sheet_names xls) [] of
        Inl (sheet_name, e) \<Rightarrow>
          (case log_error ev p
                  (''Error processing sheet '' @ [CHR 0x27] @ sheet_name @ [CHR 0x27] @ '': ''
                     @ str_exn e) st of
             (Inl e', st') \<Rightarrow> (Inl e', st')
           | (Inr u, st') \<Rightarrow> (Inr (PStr failed_message), st'))
      | Inr data_dict \<Rightarrow>
          if data_dict = [] then
            (Inl (Exn ValueError ''No valid data found in the Excel file.''), st)
          else
            (case upload_from_string ev (bucket_name p, destination_blob p)
                    (json_dumps (PDict data_dict)) st of
               (Inl e, st') \<Rightarrow> (Inl e, st')
             | (Inr u, st') \<Rightarrow> (Inr (PStr created_message), st')))"

text \<open>Lines 90 to 147, the body of the \<open>try\<close>: \<open>Inl e\<close> is an exception that leaves it.\<close>

definition parse_body :: "env \<Rightarrow> parser \<Rightarrow> store \<Rightarrow> (exn + pyval) \<times> store" where
  "parse_body ev p st =
     (let src = (bucket_name p, source_blob p) in
      case blob_exists ev src st of
        Inl e \<Rightarrow> (Inl e, st)
      | Inr ex \<Rightarrow>
          if \<not> ex then
            (Inl (Exn ValueError (''File '' @ source_blob p @ '' does not exist in bucket.'')), st)
          else
            (case download_as_bytes ev src st of
               Inl e \<Rightarrow> (Inl e, st)
             | Inr excel_data \<Rightarrow>
                 if excel_data = [] then (Inl (Exn ValueError ''Downloaded file is empty.''), st)
                 else
                   (case open_workbook ev p excel_data of
                      Inl e \<Rightarrow> (Inl e, st)
                    | Inr xls \<Rightarrow>
                        (case detect_complexity xls of
                           Inl e \<Rightarrow> (Inl e, st)
                         | Inr complex \<Rightarrow>
                             (case (if complex then try_cloud_run ev p else Inr None) of
                                Inl e \<Rightarrow> (Inl e, st)
                              | Inr (Some r) \<Rightarrow> (Inr r, st)
                              | Inr None \<Rightarrow> process_simple ev p xls st)))))"

text \<open>Lines 149 to 153, the \<open>except Exception\<close> clause around the body.\<close>

definition handle_failure :: "env \<Rightarrow> parser \<Rightarrow> (exn + pyval) \<times> store \<Rightarrow> (exn + pyval) \<times> store" where
  "handle_failure ev p r =
     (case r of
        (Inl e, st') \<Rightarrow>
          (case log_error ev p
                  (''Error processing file '' @ source_blob p @ '': '' @ str_exn e) st' of
             (Inl e', st'') \<Rightarrow> (Inl e', st'')
           | (Inr u, st'') \<Rightarrow> (Inr (PStr failed_message), st''))
      | (Inr v, st') \<Rightarrow> (Inr v, st'))"

definition parse :: "env \<Rightarrow> parser \<Rightarrow> store \<Rightarrow> (exn + pyval) \<times> store" where
  "parse ev p st = handle_failure ev p (parse_body ev p st)"

section \<open>The triggers\<close>

text \<open>\<open>obj[key]\<close> with a string key, and the need for a \<open>str\<close> where a string method is called.\<close>

fun py_getitem :: "pyval \<Rightarrow> string \<Rightarrow> exn + pyval" where
  "py_getitem (PDict kvs) k =
     (case map_of kvs k of
        Some v \<Rightarrow> Inr v
      | None \<Rightarrow> Inl (Exn KeyError ([CHR 0x27] @ k @ [CHR 0x27])))"
| "py_getitem (PList xs) k =
     Inl (Exn TypeError ''list indices must be integers or slices, not str'')"
| "py_getitem (PScalar (SStr s)) k =
     Inl (Exn TypeError (''string indices must be integers, not '' @ [CHR 0x27] @ ''str''
            @ [CHR 0x27]))"
| "py_getitem v k =
     Inl (Exn TypeError ([CHR 0x27] @ type_name v @ [CHR 0x27] @ '' object is not subscriptable''))"

fun as_str :: "pyval \<Rightarrow> string \<Rightarrow> exn + string" where
  "as_str (PScalar (SStr s)) method = Inr s"
| "as_str v method =
     Inl (Exn AttributeError ([CHR 0x27] @ type_name v @ [CHR 0x27]
            @ '' object has no attribute '' @ [CHR 0x27] @ method @ [CHR 0x27]))"

text \<open>
  \<open>convert_xlsx_to_json\<close> (lines 155 to 169), on \<open>cloud_event.data\<close>. The constructor
  \<open>GCPXLSXParser(...)\<close> calls \<open>storage_client.bucket\<close>.
\<close>

definition event_body :: "env \<Rightarrow> pyval \<Rightarrow> store \<Rightarrow> (exn + pyval) \<times> store" where
  "event_body ev data st =
     (case py_getitem data ''bucket'' of
        Inl e \<Rightarrow> (Inl e, st)
      | Inr bucket_val \<Rightarrow>
          (case py_getitem data ''name'' of
             Inl e \<Rightarrow> (Inl e, st)
           | Inr name_val \<Rightarrow>
               (case as_str name_val ''endswith'' of
                  Inl e \<Rightarrow> (Inl e, st)
                | Inr src \<Rightarrow>
                    if \<not> (endswith src ''.xlsx'' \<or> endswith src ''.xls'') then
                      (Inr (PStr ''Ignoring non-Excel file.''), st)
                    else
                      (case make_bucket ev bucket_val of
                         Inl e \<Rightarrow> (Inl e, st)
                       | Inr b \<Rightarrow> parse ev (event_parser b src) st))))"

definition convert_xlsx_to_json :: "env \<Rightarrow> pyval \<Rightarrow> store \<Rightarrow> pyval \<times> store" where
  "convert_xlsx_to_json ev data st =
     (case event_body ev data st of
        (Inl e, st') \<Rightarrow> (PStr ''Function execution failed.'', st')
      | (Inr v, st') \<Rightarrow> (v, st'))"

text \<open>
  \<open>convert_xlsx_to_json_http\<close> (lines 171 to 196). The request is what
  \<open>request.get_json(silent=True)\<close> returns: \<open>None\<close> for a body that does not parse,
  else the decoded value. A response is the dict given to \<open>jsonify\<close> and the status.
\<close>

record http_response =
  body :: pyval
  status :: nat

definition error_response :: "string \<Rightarrow> nat \<Rightarrow> http_response" where
  "error_response m code = \<lparr>body = PDict [(''error'', PStr m)], status = code\<rparr>"

definition http_body :: "env \<Rightarrow> pyval option \<Rightarrow> store \<Rightarrow> (exn + http_response) \<times> store" where
  "http_body ev request_json st =
     (case request_json of
        None \<Rightarrow> (Inr (error_response ''Invalid JSON payload'' 400), st)
      | Some j \<Rightarrow>
          if \<not> truthy j then (Inr (error_response ''Invalid JSON payload'' 400), st)
          else
            (case py_get j ''bucket'' PNone of
               Inl e \<Rightarrow> (Inl e, st)
             | Inr bucket_val \<Rightarrow>
                 (case py_get j ''name'' PNone of
                    Inl e \<Rightarrow> (Inl e, st)
                  | Inr name_val \<Rightarrow>
                      if \<not> truthy bucket_val \<or> \<not> truthy name_val then
                        (Inr (error_response ''Missing required parameters'' 400), st)
                      else
                        (case as_str name_val ''replace'' of
                           Inl e \<Rightarrow> (Inl e, st)
                         | Inr src \<Rightarrow>
                             (case make_bucket ev bucket_val of
                                Inl e \<Rightarrow> (Inl e, st)
                              | Inr b \<Rightarrow>
                                  (case parse ev (http_parser b src) st of
                                     (Inl e, st') \<Rightarrow> (Inl e, st')
                                   | (Inr v, st') \<Rightarrow>
                                       (Inr \<lparr>body = PDict [(''message'', v)], status = 200\<rparr>,
                                        st')))))))"

definition convert_xlsx_to_json_http :: "env \<Rightarrow> pyval option \<Rightarrow> store \<Rightarrow> http_response \<times> store" where
  "convert_xlsx_to_json_http ev request_json st =
     (case http_body ev request_json st of
        (Inl e, st') \<Rightarrow> (error_response (str_exn e) 500, st')
      | (Inr r, st') \<Rightarrow> (r, st'))"

section \<open>Notions used to state the properties\<close>

text \<open>
  \<open>with_log st eb m\<close> is the store after message \<open>m\<close> was appended, as a line, to the
  log blob \<open>eb\<close> (created if absent).
\<close>

definition with_log :: "store \<Rightarrow> blob_id \<Rightarrow> string \<Rightarrow> store" where
  "with_log st eb m = st(eb \<mapsto> (case st eb of None \<Rightarrow> [] | Some t \<Rightarrow> t) @ m @ [CHR 0x0A])"

definition error_id :: "parser \<Rightarrow> blob_id" where
  "error_id p = (bucket_name p, error_blob p)"

definition destination_id :: "parser \<Rightarrow> blob_id" where
  "destination_id p = (bucket_name p, destination_blob p)"

text \<open>The storage calls of \<open>log_error\<close> on the error-log blob do not raise.\<close>

definition log_writable :: "env \<Rightarrow> parser \<Rightarrow> bool" where
  "log_writable ev p =
     (exists_fault ev (error_id p) = None \<and> text_fault ev (error_id p) = None
      \<and> upload_fault ev (error_id p) = None)"

text \<open>
  The run reaches the local conversion (line 119) with workbook \<open>xls\<close>: the source
  exists, is not empty and decodes to \<open>xls\<close>, and either the workbook is not complex or
  the remote parser's answer holds \<open>error\<close>.
\<close>

definition processed_locally :: "env \<Rightarrow> parser \<Rightarrow> store \<Rightarrow> excel_file \<Rightarrow> bool" where
  "processed_locally ev p st xls =
     (blob_exists ev (bucket_name p, source_blob p) st = Inr True
      \<and> (\<exists>excel_data. download_as_bytes ev (bucket_name p, source_blob p) st = Inr excel_data
            \<and> excel_data \<noteq> [] \<and> open_workbook ev p excel_data = Inr xls)
      \<and> (detect_complexity xls = Inr False
           \<or> (detect_complexity xls = Inr True \<and> try_cloud_run ev p = Inr None)))"


text \<open>
  What the two readings of a sheet give: \<open>raw_trigger\<close> is the test of lines 44 and 47
  on the headerless grid, \<open>cleaned\<close> the table of line 123 after lines 124 and 125.
\<close>

definition raw_parses :: "excel_file \<Rightarrow> string \<Rightarrow> bool" where
  "raw_parses xls n = (case parse_sheet xls n HeaderNone of Inl e \<Rightarrow> False | Inr df \<Rightarrow> True)"

definition raw_trigger :: "excel_file \<Rightarrow> string \<Rightarrow> bool" where
  "raw_trigger xls n =
     (case parse_sheet xls n HeaderNone of
        Inl e \<Rightarrow> False
      | Inr df \<Rightarrow> isna_count df > 0 \<or> lower n \<in> set structured_names)"

definition has_missing_cell :: "excel_file \<Rightarrow> string \<Rightarrow> bool" where
  "has_missing_cell xls n =
     (case parse_sheet xls n HeaderNone of
        Inl e \<Rightarrow> False
      | Inr df \<Rightarrow> \<exists>r \<in> set (rows df). \<exists>c \<in> set r. isna c)"

definition table_parses :: "excel_file \<Rightarrow> string \<Rightarrow> bool" where
  "table_parses xls n = (case parse_sheet xls n Header0 of Inl e \<Rightarrow> False | Inr df \<Rightarrow> True)"

definition cleaned :: "excel_file \<Rightarrow> string \<Rightarrow> dataframe" where
  "cleaned xls n =
     (case parse_sheet xls n Header0 of
        Inl e \<Rightarrow> \<lparr>columns = [], rows = []\<rparr>
      | Inr df \<Rightarrow> dropna_rows (dropna_columns df))"

definition non_empty_sheet :: "excel_file \<Rightarrow> string \<Rightarrow> bool" where
  "non_empty_sheet xls n = (table_parses xls n \<and> \<not> df_empty (cleaned xls n))"

text \<open>A data frame is well formed when every row has one cell per column.\<close>

definition well_formed :: "dataframe \<Rightarrow> bool" where
  "well_formed df = list_all (\<lambda>r. length r = length (columns df)) (rows df)"

text \<open>The keys of a dict, in order.\<close>

fun dict_keys :: "pyval \<Rightarrow> string list" where
  "dict_keys (PDict kvs) = map fst kvs"
| "dict_keys v = []"

section \<open>Test doubles\<close>

text \<open>
  The fixtures of \<open>test_gcp_xlsx_parser.py\<close>: the parser of \<open>setUp\<close>, a workbook given
  by its sheets (name, headerless reading, reading with header row 0), and an
  environment whose storage never raises unless told to, whose decoder returns the
  given workbook for any bytes, and whose remote endpoint gives the given answer.
\<close>

definition test_parser :: parser where
  "test_parser =
     \<lparr>bucket_name = ''xlsx-test-bucket'', source_blob = ''test.xlsx'',
      destination_blob = ''test.json'', error_blob = ''test_error.log''\<rparr>"

definition workbook_of :: "(string \<times> (exn + dataframe) \<times> (exn + dataframe)) list \<Rightarrow> excel_file" where
  "workbook_of sheets =
     \<lparr>sheet_names = map fst sheets,
      parse_sheet = (\<lambda>n h.
        case map_of sheets n of
          None \<Rightarrow> Inl (Exn ValueError (''Worksheet named '' @ n @ '' not found''))
        | Some (raw, tab) \<Rightarrow> (case h of HeaderNone \<Rightarrow> raw | Header0 \<Rightarrow> tab))\<rparr>"

definition bucket_of :: "pyval \<Rightarrow> exn + string" where
  "bucket_of v =
     (case v of
        PScalar (SStr s) \<Rightarrow> Inr s
      | _ \<Rightarrow> Inl (Exn TypeError ''bucket name must be a string''))"

definition env_of :: "excel_file \<Rightarrow> exn + response \<Rightarrow> (blob_id \<Rightarrow> exn option) \<Rightarrow> env" where
  "env_of xls answer upload_faults =
     \<lparr>exists_fault = (\<lambda>b. None), bytes_fault = (\<lambda>b. None), text_fault = (\<lambda>b. None),
      upload_fault = upload_faults,
      read_excel = (\<lambda>eng data. Inr xls),
      make_bucket = bucket_of,
      post = (\<lambda>b f. answer),
      repr_of = (\<lambda>v. ''...'')\<rparr>"

definition no_faults :: "blob_id \<Rightarrow> exn option" where
  "no_faults b = None"

definition unreachable :: "exn + response" where
  "unreachable = Inl (Exn RequestException ''connection refused'')"

definition test_store :: store where
  "test_store = [(''xlsx-test-bucket'', ''test.xlsx'') \<mapsto> ''PK-xlsx-bytes'']"

text \<open>
  The sheet of \<open>test_xlsx_correct_headers\<close>, \<open>pd.DataFrame({"Title": ["Doc1"], "Date":
  ["2025-02-10"]})\<close> written by \<open>to_excel(index=False)\<close> to the sheet \<open>Sheet1\<close>.
\<close>

definition doc_raw :: dataframe where
  "doc_raw =
     \<lparr>columns = [''0'', ''1''],
      rows = [[SStr ''Title'', SStr ''Date''], [SStr ''Doc1'', SStr ''2025-02-10'']]\<rparr>"

definition doc_table :: dataframe where
  "doc_table = \<lparr>columns = [''Title'', ''Date''], rows = [[SStr ''Doc1'', SStr ''2025-02-10'']]\<rparr>"

definition doc_workbook :: excel_file where
  "doc_workbook = workbook_of [(''Sheet1'', Inr doc_raw, Inr doc_table)]"

text \<open>A sheet with a missing cell, a sheet of two all-null rows, a sheet that fails to convert.\<close>

definition gap_raw :: dataframe where
  "gap_raw =
     \<lparr>columns = [''0'', ''1''],
      rows = [[SStr ''Title'', SStr ''Date''], [SStr ''Doc1'', SNaN]]\<rparr>"

definition gap_table :: dataframe where
  "gap_table =
     \<lparr>columns = [''Title'', ''Date''],
      rows = [[SStr ''Doc1'', SNaN], [SStr ''Doc2'', SStr ''2025-02-11'']]\<rparr>"

definition gap_workbook :: excel_file where
  "gap_workbook = workbook_of [(''Sheet1'', Inr gap_raw, Inr gap_table)]"

definition null_table :: dataframe where
  "null_table = \<lparr>columns = [''Title'', ''Date''], rows = [[SNaN, SNaN], [SNaN, SNaN]]\<rparr>"

definition null_workbook :: excel_file where
  "null_workbook = workbook_of [(''Sheet1'', Inr doc_raw, Inr null_table)]"

definition broken_workbook :: excel_file where
  "broken_workbook =
     workbook_of [(''Sheet1'', Inr doc_raw, Inr doc_table),
                  (''Sheet2'', Inr doc_raw, Inl (Exn ValueError ''bad sheet''))]"

definition report_workbook :: excel_file where
  "report_workbook = workbook_of [(''Report'', Inr doc_raw, Inr doc_table)]"

definition remote_payload :: pyval where
  "remote_payload = PDict [(''Report'', PList [PDict [(''Title'', PStr ''Doc1'')]])]"

definition remote_ok :: "exn + response" where
  "remote_ok = Inr \<lparr>status_code = 200, json_result = Inr remote_payload\<rparr>"

definition remote_500 :: "exn + response" where
  "remote_500 =
     Inr \<lparr>status_code = 500, json_result = Inr (PDict [(''error'', PStr ''layout engine down'')])\<rparr>"


definition log_denied :: "blob_id \<Rightarrow> exn option" where
  "log_denied b =
     (if b = (''xlsx-test-bucket'', ''test_error.log'') then Some (Exn StorageError ''403 Forbidden'')
      else None)"

text \<open>
  Three sheets: one with an all-null column and an all-null row, one with nothing but
  nulls, and the sheet of the first test.
\<close>

definition mixed_table :: dataframe where
  "mixed_table =
     \<lparr>columns = [''Title'', ''Note'', ''Date''],
      rows = [[SStr ''Doc1'', SNaN, SStr ''2025-02-10''],
              [SNaN, SNaN, SNaN],
              [SStr ''Doc2'', SNaN, SNaN]]\<rparr>"

definition mixed_workbook :: excel_file where
  "mixed_workbook =
     workbook_of [(''Data'', Inr doc_raw, Inr mixed_table),
                  (''Blank'', Inr doc_raw, Inr null_table),
                  (''More'', Inr doc_raw, Inr doc_table)]"

definition shortcut_workbook :: excel_file where
  "shortcut_workbook =
     workbook_of [(''Sheet1'', Inr gap_raw, Inr gap_table),
                  (''Sheet2'', Inl (Exn ValueError ''bad sheet''), Inr doc_table)]"


text \<open>
  The table of a sheet as line 123 reads it, and the record that line 131 makes of one
  of its rows: the labels and cells of the columns that are not all-null.
\<close>

definition table_of :: "excel_file \<Rightarrow> string \<Rightarrow> dataframe" where
  "table_of xls n =
     (case parse_sheet xls n Header0 of
        Inl e \<Rightarrow> \<lparr>columns = [], rows = []\<rparr>
      | Inr df \<Rightarrow> df)"

definition row_record :: "dataframe \<Rightarrow> scalar list \<Rightarrow> pyval" where
  "row_record df r =
     PDict (dict_of_items (zip (map (\<lambda>j. columns df ! j) (kept_columns df))
                               (map (\<lambda>j. PScalar (cell_at r j)) (kept_columns df))))"

section \<open>Decoding JSON\<close>

text \<open>
  \<open>json.loads\<close>, for the documents the encoder above writes: objects, arrays, strings
  with their escapes, integers, \<open>null\<close>, \<open>true\<close>, \<open>false\<close> and the token \<open>NaN\<close>.
  Numbers with a fraction or an exponent and escapes of code points above 255 are not
  modelled (the decoder gives up on them). Every call uses up one unit of \<open>fuel\<close>;
  \<open>json_loads\<close> starts with more units than the text has characters.
\<close>

definition is_ws :: "char \<Rightarrow> bool" where
  "is_ws c = (c = CHR '' '' \<or> c = CHR 0x0A \<or> c = CHR 0x0D \<or> c = CHR 0x09)"

definition skip_ws :: "string \<Rightarrow> string" where
  "skip_ws cs = dropWhile is_ws cs"

definition hex_value :: "char \<Rightarrow> nat option" where
  "hex_value c =
     (let n = (of_char c :: nat) in
      if 48 \<le> n \<and> n \<le> 57 then Some (n - 48)
      else if 97 \<le> n \<and> n \<le> 102 then Some (n - 87)
      else if 65 \<le> n \<and> n \<le> 70 then Some (n - 55)
      else None)"

fun hex4 :: "string \<Rightarrow> char option" where
  "hex4 [a, b, c, d] =
     (case (hex_value a, hex_value b, hex_value c, hex_value d) of
        (Some 0, Some 0, Some h, Some l) \<Rightarrow> Some (char_of (16 * h + l))
      | _ \<Rightarrow> None)"
| "hex4 cs = None"

definition unescape :: "char \<Rightarrow> char option" where
  "unescape e =
     (if e = CHR 0x22 \<or> e = CHR 0x5C \<or> e = CHR ''/'' then Some e
      else if e = CHR ''n'' then Some (CHR 0x0A)
      else if e = CHR ''r'' then Some (CHR 0x0D)
      else if e = CHR ''t'' then Some (CHR 0x09)
      else if e = CHR ''b'' then Some (CHR 0x08)
      else if e = CHR ''f'' then Some (CHR 0x0C)
      else None)"

text \<open>The rest of a string after its opening quote: the string and what follows it.\<close>

fun json_string :: "string \<Rightarrow> (string \<times> string) option" where
  "json_string [] = None"
| "json_string (c # cs) =
     (if c = CHR 0x22 then Some ([], cs)
      else if (of_char c :: nat) < 32 then None
      else if c = CHR 0x5C then
        (case cs of
           [] \<Rightarrow> None
         | e # cs' \<Rightarrow>
             if e = CHR ''u'' then
               (case hex4 (take 4 cs') of
                  None \<Rightarrow> None
                | Some ch \<Rightarrow> map_option (\<lambda>(s, r). (ch # s, r)) (json_string (drop 4 cs')))
             else
               (case unescape e of
                  None \<Rightarrow> None
                | Some ch \<Rightarrow> map_option (\<lambda>(s, r). (ch # s, r)) (json_string cs')))
      else map_option (\<lambda>(s, r). (c # s, r)) (json_string cs))"

definition is_digit :: "char \<Rightarrow> bool" where
  "is_digit c = (48 \<le> (of_char c :: nat) \<and> (of_char c :: nat) \<le> 57)"

definition digits_value :: "string \<Rightarrow> nat" where
  "digits_value ds = foldl (\<lambda>a c. 10 * a + ((of_char c :: nat) - 48)) 0 ds"

definition json_number :: "string \<Rightarrow> (pyval \<times> string) option" where
  "json_number cs =
     (let neg = (cs \<noteq> [] \<and> hd cs = CHR ''-'');
          body = (if neg then tl cs else cs);
          ds = takeWhile is_digit body;
          rest = dropWhile is_digit body
      in if ds = [] \<or> (length ds > 1 \<and> hd ds = CHR ''0'') then None
         else if rest \<noteq> [] \<and> hd rest \<in> set ''.eE'' then None
         else Some (PScalar (SInt (if neg then - int (digits_value ds) else int (digits_value ds))),
                    rest))"

definition json_literal :: "string \<Rightarrow> (pyval \<times> string) option" where
  "json_literal cs =
     (if prefix ''null'' cs then Some (PNone, drop 4 cs)
      else if prefix ''true'' cs then Some (PScalar (SBool True), drop 4 cs)
      else if prefix ''false'' cs then Some (PScalar (SBool False), drop 5 cs)
      else if prefix ''NaN'' cs then Some (PScalar SNaN, drop 3 cs)
      else json_number cs)"

fun json_value :: "nat \<Rightarrow> string \<Rightarrow> (pyval \<times> string) option"
  and json_elements :: "nat \<Rightarrow> string \<Rightarrow> (pyval list \<times> string) option"
  and json_members :: "nat \<Rightarrow> string \<Rightarrow> ((string \<times> pyval) list \<times> string) option" where
  "json_value 0 cs = None"
| "json_value (Suc fuel) cs =
     (case skip_ws cs of
        [] \<Rightarrow> None
      | c # rest \<Rightarrow>
          if c = CHR ''['' then
            (case skip_ws rest of
               [] \<Rightarrow> None
             | c' # rest' \<Rightarrow>
                 if c' = CHR '']'' then Some (PList [], rest')
                 else map_option (\<lambda>(xs, r). (PList xs, r)) (json_elements fuel rest))
          else if c = CHR ''{'' then
            (case skip_ws rest of
               [] \<Rightarrow> None
             | c' # rest' \<Rightarrow>
                 if c' = CHR ''}'' then Some (PDict [], rest')
                 else map_option (\<lambda>(kvs, r). (PDict (dict_of_items kvs), r))
                        (json_members fuel rest))
          else if c = CHR 0x22 then map_option (\<lambda>(s, r). (PStr s, r)) (json_string rest)
          else json_literal (c # rest))"
| "json_elements 0 cs = None"
| "json_elements (Suc fuel) cs =
     (case json_value fuel cs of
        None \<Rightarrow> None
      | Some (v, r) \<Rightarrow>
          (case skip_ws r of
             [] \<Rightarrow> None
           | c # r' \<Rightarrow>
               if c = CHR '']'' then Some ([v], r')
               else if c = CHR '','' then
                 map_option (\<lambda>(vs, r''). (v # vs, r'')) (json_elements fuel r')
               else None))"
| "json_members 0 cs = None"
| "json_members (Suc fuel) cs =
     (case skip_ws cs of
        [] \<Rightarrow> None
      | q # r0 \<Rightarrow>
          if q \<noteq> CHR 0x22 then None
          else
            (case json_string r0 of
               None \<Rightarrow> None
             | Some (k, r1) \<Rightarrow>
                 (case skip_ws r1 of
                    [] \<Rightarrow> None
                  | c # r2 \<Rightarrow>
                      if c \<noteq> CHR '':'' then None
                      else
                        (case json_value fuel r2 of
                           None \<Rightarrow> None
                         | Some (v, r3) \<Rightarrow>
                             (case skip_ws r3 of
                                [] \<Rightarrow> None
                              | c' # r4 \<Rightarrow>
                                  if c' = CHR ''}'' then Some ([(k, v)], r4)
                                  else if c' = CHR '','' then
                                    map_option (\<lambda>(kvs, r5). ((k, v) # kvs, r5))
                                      (json_members fuel r4)
                                  else None)))))"

definition json_loads :: "string \<Rightarrow> pyval option" where
  "json_loads s =
     (case json_value (Suc (length s)) s of
        None \<Rightarrow> None
      | Some (v, rest) \<Rightarrow> if skip_ws rest = [] then Some v else None)"

text \<open>The two messages that \<open>parse\<close> gives to \<open>log_error\<close> (lines 134 and 150).\<close>

definition sheet_message :: "string \<Rightarrow> exn \<Rightarrow> string" where
  "sheet_message n e =
     ''Error processing sheet '' @ [CHR 0x27] @ n @ [CHR 0x27] @ '': '' @ str_exn e"

definition file_message :: "parser \<Rightarrow> exn \<Rightarrow> string" where
  "file_message p e = ''Error processing file '' @ source_blob p @ '': '' @ str_exn e"

section \<open>Auxiliary facts\<close>

lemma isna_count_zero: "(isna_count df = 0) = (\<forall>r \<in> set (rows df). \<forall>c \<in> set r. \<not> isna c)"
  by (auto simp: isna_count_def filter_empty_conv)

lemma isna_count_pos: "(isna_count df > 0) = (\<exists>r \<in> set (rows df). \<exists>c \<in> set r. isna c)"
  using isna_count_zero [of df] by auto

lemma raw_trigger_iff:
  "raw_parses xls n \<Longrightarrow>
   raw_trigger xls n =
     (has_missing_cell xls n \<or> lower n \<in> {''overview'', ''metadata schema'', ''report''})"
  by (auto simp: raw_parses_def raw_trigger_def has_missing_cell_def isna_count_pos
      structured_names_def split: sum.splits)

lemma detect_loop_all:
  "\<forall>n \<in> set ns. raw_parses xls n \<Longrightarrow>
   detect_loop xls ns = Inr (\<exists>n \<in> set ns. raw_trigger xls n)"
  by (induction ns) (auto simp: raw_parses_def raw_trigger_def split: sum.splits)

lemma detect_loop_first:
  "\<forall>m \<in> set pre. raw_parses xls m \<and> \<not> raw_trigger xls m \<Longrightarrow> raw_trigger xls n \<Longrightarrow>
   detect_loop xls (pre @ n # others) = Inr True"
  by (induction pre) (auto simp: raw_parses_def raw_trigger_def split: sum.splits)

section \<open>The complexity detector\<close>

text \<open>
  C3. If the headerless reading of every sheet returns a grid, \<open>detect_complexity\<close>
  returns true exactly when some sheet's grid has a missing cell or some sheet's name,
  lower-cased, is \<open>overview\<close>, \<open>metadata schema\<close> or \<open>report\<close>; so a sheet named
  \<open>Report\<close> in any case makes it true whatever the cells hold. The loop stops at the
  first sheet that triggers: when the sheets before it were read and did not trigger,
  the answer is true whatever the later sheets are, also when reading them would raise.
\<close>

theorem detect_complexity_iff:
  "((\<forall>n \<in> set (sheet_names xls). raw_parses xls n) \<longrightarrow>
      detect_complexity xls =
        Inr (\<exists>n \<in> set (sheet_names xls).
               has_missing_cell xls n
               \<or> lower n \<in> {''overview'', ''metadata schema'', ''report''})
      \<and> ((\<exists>n \<in> set (sheet_names xls). lower n = ''report'') \<longrightarrow>
            detect_complexity xls = Inr True))
   \<and> (sheet_names xls = pre @ n # others
        \<and> (\<forall>m \<in> set pre. raw_parses xls m \<and> \<not> raw_trigger xls m)
        \<and> raw_trigger xls n \<longrightarrow>
      detect_complexity xls = Inr True)"
proof (intro conjI impI)
  assume all: "\<forall>n \<in> set (sheet_names xls). raw_parses xls n"
  have "detect_complexity xls = Inr (\<exists>n \<in> set (sheet_names xls). raw_trigger xls n)"
    unfolding detect_complexity_def using all by (rule detect_loop_all)
  moreover have "(\<exists>n \<in> set (sheet_names xls). raw_trigger xls n) =
      (\<exists>n \<in> set (sheet_names xls).
         has_missing_cell xls n \<or> lower n \<in> {''overview'', ''metadata schema'', ''report''})"
    using all raw_trigger_iff by blast
  ultimately show main: "detect_complexity xls =
      Inr (\<exists>n \<in> set (sheet_names xls).
             has_missing_cell xls n \<or> lower n \<in> {''overview'', ''metadata schema'', ''report''})"
    by simp
  assume "\<exists>n \<in> set (sheet_names xls). lower n = ''report''"
  then show "detect_complexity xls = Inr True"
    using main by auto
next
  assume "sheet_names xls = pre @ n # others
        \<and> (\<forall>m \<in> set pre. raw_parses xls m \<and> \<not> raw_trigger xls m)
        \<and> raw_trigger xls n"
  then show "detect_complexity xls = Inr True"
    unfolding detect_complexity_def using detect_loop_first by simp
qed

theorem detect_complexity_iff_witness:
  "raw_parses report_workbook ''Report'' \<and> \<not> has_missing_cell report_workbook ''Report''
   \<and> detect_complexity report_workbook = Inr True
   \<and> \<not> raw_parses shortcut_workbook ''Sheet2''
   \<and> detect_complexity shortcut_workbook = Inr True
   \<and> detect_complexity doc_workbook = Inr False"
proof -
  have names: "sheet_names report_workbook = [''Report'']"
    "sheet_names shortcut_workbook = [] @ ''Sheet1'' # [''Sheet2'']"
    "sheet_names doc_workbook = [''Sheet1'']"
    by (simp_all add: report_workbook_def shortcut_workbook_def doc_workbook_def workbook_of_def)
  have r: "raw_parses report_workbook ''Report''" "\<not> has_missing_cell report_workbook ''Report''"
    "lower ''Report'' = ''report''"
    by code_simp+
  have s: "\<not> raw_parses shortcut_workbook ''Sheet2''" "raw_trigger shortcut_workbook ''Sheet1''"
    by code_simp+
  have d: "raw_parses doc_workbook ''Sheet1''" "\<not> has_missing_cell doc_workbook ''Sheet1''"
    "lower ''Sheet1'' = ''sheet1''"
    by code_simp+
  have 1: "detect_complexity report_workbook = Inr True"
    using detect_complexity_iff [of report_workbook "[]" "''Report''" "[]"] names r by simp
  have 2: "detect_complexity shortcut_workbook = Inr True"
    using detect_complexity_iff [of shortcut_workbook "[]" "''Sheet1''" "[''Sheet2'']"] names s
    by simp
  have 3: "detect_complexity doc_workbook = Inr False"
    using detect_complexity_iff [of doc_workbook "[]" "''Sheet1''" "[]"] names d by simp
  show ?thesis using r s 1 2 3 by simp
qed


section \<open>The orchestrator\<close>

lemma log_error_ok:
  "log_writable ev p \<Longrightarrow> log_error ev p m st = (Inr (), with_log st (error_id p) m)"
  by (auto simp: log_writable_def log_error_def error_id_def with_log_def blob_exists_def
      download_as_text_def upload_from_string_def Let_def split: option.splits)

lemma log_error_cases:
  "log_error ev p m st = (Inr (), with_log st (error_id p) m)
   \<or> (\<exists>e. log_error ev p m st = (Inl e, st))"
  by (auto simp: log_error_def error_id_def with_log_def blob_exists_def
      download_as_text_def upload_from_string_def Let_def split: option.splits)

lemma process_simple_Inl:
  "process_simple ev p xls st = (Inl e, st') \<Longrightarrow> st' = st"
  using log_error_cases [of ev p _ st]
  apply (auto simp: process_simple_def upload_from_string_def
      split: sum.splits prod.splits if_splits option.splits)
  by (metis Inl_Inr_False Pair_inject)+

lemma parse_body_Inl:
  "parse_body ev p st = (Inl e, st') \<Longrightarrow> st' = st"
  by (auto simp: parse_body_def Let_def dest: process_simple_Inl
      split: sum.splits if_splits option.splits)

lemma parse_locally:
  "processed_locally ev p st xls \<Longrightarrow> parse ev p st = handle_failure ev p (process_simple ev p xls st)"
  by (auto simp: processed_locally_def parse_def parse_body_def Let_def)

lemma process_simple_outcomes:
  "(\<exists>d. d \<noteq> [] \<and> process_simple ev p xls st =
          (Inr (PStr created_message), st(destination_id p \<mapsto> json_dumps (PDict d))))
   \<or> (\<exists>m. process_simple ev p xls st = (Inr (PStr failed_message), with_log st (error_id p) m))
   \<or> (\<exists>e. process_simple ev p xls st = (Inl e, st))"
proof (cases "convert_sheets xls (sheet_names xls) []")
  case (Inl a)
  obtain n e where a: "a = (n, e)" by (cases a)
  show ?thesis
    using log_error_cases [of ev p "''Error processing sheet '' @ [CHR 0x27] @ n @ [CHR 0x27] @ '': '' @ str_exn e" st]
    by (auto simp: process_simple_def Inl a)
next
  case (Inr d)
  show ?thesis
    by (cases "upload_fault ev (bucket_name p, destination_blob p)")
      (auto simp: process_simple_def Inr upload_from_string_def destination_id_def)
qed

lemma handle_failure_Inr: "handle_failure ev p (Inr v, st) = (Inr v, st)"
  by (simp add: handle_failure_def)

lemma handle_failure_Inl:
  "handle_failure ev p (Inl e, st) =
     (case log_error ev p (''Error processing file '' @ source_blob p @ '': '' @ str_exn e) st of
        (Inl e', st'') \<Rightarrow> (Inl e', st'')
      | (Inr u, st'') \<Rightarrow> (Inr (PStr failed_message), st''))"
  by (simp add: handle_failure_def)

lemma parse_body_outcomes:
  "(\<exists>d. d \<noteq> [] \<and> parse_body ev p st =
          (Inr (PStr created_message), st(destination_id p \<mapsto> json_dumps (PDict d))))
   \<or> (\<exists>m. parse_body ev p st = (Inr (PStr failed_message), with_log st (error_id p) m))
   \<or> (\<exists>r. parse_body ev p st = (Inr r, st) \<and> try_cloud_run ev p = Inr (Some r))
   \<or> (\<exists>e. parse_body ev p st = (Inl e, st))"
  using process_simple_outcomes [of ev p _ st]
  by (auto simp: parse_body_def Let_def split: sum.splits option.splits)

text \<open>
  C1 (as amended). Every run of \<open>parse\<close> ends in one of four ways. Success: it returns
  the success message, and the JSON text of a non-empty \<open>data_dict\<close> was stored in the
  destination blob. Failure: it returns \<open>Failed to process XLSX file.\<close>, and one message
  line was appended to the error log. Remote: it returns the answer of the remote parser,
  which does not hold \<open>error\<close>, as it is (a decoded JSON value, not a status text), and
  nothing was stored. Exception: \<open>log_error\<close> itself raised; its exception leaves \<open>parse\<close>
  and nothing was stored.
\<close>

theorem parse_outcomes:
  "(\<exists>d. d \<noteq> [] \<and> parse ev p st =
          (Inr (PStr created_message), st(destination_id p \<mapsto> json_dumps (PDict d))))
   \<or> (\<exists>m. parse ev p st = (Inr (PStr failed_message), with_log st (error_id p) m))
   \<or> (\<exists>r. parse ev p st = (Inr r, st) \<and> try_cloud_run ev p = Inr (Some r))
   \<or> (\<exists>e m. parse ev p st = (Inl e, st) \<and> log_error ev p m st = (Inl e, st))"
proof -
  consider (created) d where "d \<noteq> []"
      "parse_body ev p st =
        (Inr (PStr created_message), st(destination_id p \<mapsto> json_dumps (PDict d)))"
    | (failed) m where "parse_body ev p st = (Inr (PStr failed_message), with_log st (error_id p) m)"
    | (remote) r where "parse_body ev p st = (Inr r, st)" "try_cloud_run ev p = Inr (Some r)"
    | (raised) e where "parse_body ev p st = (Inl e, st)"
    using parse_body_outcomes [of ev p st] by blast
  then show ?thesis
  proof cases
    case created
    then show ?thesis by (auto simp: parse_def handle_failure_Inr)
  next
    case failed
    then show ?thesis by (auto simp: parse_def handle_failure_Inr)
  next
    case remote
    then show ?thesis by (auto simp: parse_def handle_failure_Inr)
  next
    case raised
    show ?thesis
      using log_error_cases [of ev p "''Error processing file '' @ source_blob p @ '': '' @ str_exn e" st]
      by (auto simp: parse_def raised handle_failure_Inl)
  qed
qed

text \<open>
  The claim as stated fails on the remote path: for a workbook with a sheet \<open>Report\<close>
  and a remote answer of status 200, \<open>parse\<close> returns the remote dict; neither blob is
  written.
\<close>

theorem parse_remote_payload_counterexample:
  "fst (parse (env_of report_workbook remote_ok no_faults) test_parser test_store)
     = Inr (PDict [(''Report'', PList [PDict [(''Title'', PStr ''Doc1'')]])])
   \<and> fst (parse (env_of report_workbook remote_ok no_faults) test_parser test_store)
     \<noteq> Inr (PStr ''JSON file successfully created in GCS.'')
   \<and> fst (parse (env_of report_workbook remote_ok no_faults) test_parser test_store)
     \<noteq> Inr (PStr ''Failed to process XLSX file.'')
   \<and> snd (parse (env_of report_workbook remote_ok no_faults) test_parser test_store)
        (''xlsx-test-bucket'', ''test.json'') = None
   \<and> snd (parse (env_of report_workbook remote_ok no_faults) test_parser test_store)
        (''xlsx-test-bucket'', ''test_error.log'') = None"
  by code_simp


section \<open>Remote delegation and fallback\<close>

lemma fixture_detect:
  "detect_complexity report_workbook = Inr True"
  "detect_complexity doc_workbook = Inr False"
  "detect_complexity gap_workbook = Inr True"
  "detect_complexity null_workbook = Inr False"
  "detect_complexity broken_workbook = Inr False"
  by code_simp+


lemma fixture_local:
  "processed_locally (env_of doc_workbook answer uf) test_parser test_store doc_workbook"
  "processed_locally (env_of null_workbook answer uf) test_parser test_store null_workbook"
  "processed_locally (env_of broken_workbook answer uf) test_parser test_store broken_workbook"
  by (simp_all add: processed_locally_def blob_exists_def download_as_bytes_def env_of_def
      test_store_def test_parser_def open_workbook_def fixture_detect)









section \<open>Failures of the local conversion\<close>

lemma convert_sheets_fail:
  "\<exists>n \<in> set ns. \<not> table_parses xls n \<Longrightarrow>
   \<exists>n e. n \<in> set ns \<and> parse_sheet xls n Header0 = Inl e \<and> convert_sheets xls ns d = Inl (n, e)"
proof (induction ns arbitrary: d)
  case Nil
  then show ?case by simp
next
  case (Cons a ns)
  show ?case
  proof (cases "parse_sheet xls a Header0")
    case (Inl e)
    then show ?thesis by auto
  next
    case (Inr df)
    then have "\<exists>n \<in> set ns. \<not> table_parses xls n"
      using Cons.prems by (auto simp: table_parses_def)
    from Cons.IH [OF this] show ?thesis
      using Inr by (auto simp: Let_def) metis+
  qed
qed

lemma convert_sheets_all_empty:
  "\<forall>n \<in> set ns. table_parses xls n \<and> \<not> non_empty_sheet xls n \<Longrightarrow>
   convert_sheets xls ns d = Inr d"
  by (induction ns arbitrary: d)
    (auto simp: table_parses_def non_empty_sheet_def cleaned_def Let_def split: sum.splits)

lemma process_simple_sheet_fail:
  "convert_sheets xls (sheet_names xls) [] = Inl (n, e) \<Longrightarrow> log_writable ev p \<Longrightarrow>
   process_simple ev p xls st = (Inr (PStr failed_message), with_log st (error_id p) (sheet_message n e))"
  by (simp add: process_simple_def log_error_ok sheet_message_def)

lemma process_simple_no_data:
  "convert_sheets xls (sheet_names xls) [] = Inr [] \<Longrightarrow>
   process_simple ev p xls st = (Inl (Exn ValueError ''No valid data found in the Excel file.''), st)"
  by (simp add: process_simple_def)

lemma handle_failure_logged:
  "log_writable ev p \<Longrightarrow>
   handle_failure ev p (Inl e, st) = (Inr (PStr failed_message), with_log st (error_id p) (file_message p e))"
  by (simp add: handle_failure_def log_error_ok file_message_def)

lemma process_simple_store:
  "convert_sheets xls (sheet_names xls) [] = Inl (n, e) \<or> convert_sheets xls (sheet_names xls) [] = Inr [] \<Longrightarrow>
   snd (process_simple ev p xls st) = st \<and> (\<exists>e'. fst (process_simple ev p xls st) = Inl e')
   \<or> (\<exists>m. process_simple ev p xls st = (Inr (PStr failed_message), with_log st (error_id p) m))"
  using log_error_cases [of ev p "sheet_message n e" st]
  by (auto simp: process_simple_def sheet_message_def)

lemma handle_failure_store:
  "snd (handle_failure ev p (Inl e, st)) = st
   \<or> snd (handle_failure ev p (Inl e, st)) = with_log st (error_id p) (file_message p e)"
  using log_error_cases [of ev p "file_message p e" st]
  by (auto simp: handle_failure_def file_message_def)

lemma parse_raised_by_log:
  "parse ev p st = (Inl e, st') \<Longrightarrow> st' = st \<and> (\<exists>m. log_error ev p m st = (Inl e, st))"
proof -
  assume a: "parse ev p st = (Inl e, st')"
  obtain r s0 where pb: "parse_body ev p st = (r, s0)" by (cases "parse_body ev p st")
  show ?thesis
  proof (cases r)
    case (Inl e0)
    then have s0: "s0 = st" using pb parse_body_Inl by blast
    show ?thesis
      using a log_error_cases [of ev p "file_message p e0" st]
      by (auto simp: parse_def pb Inl s0 handle_failure_def file_message_def)
  next
    case (Inr v)
    then show ?thesis using a by (simp add: parse_def pb handle_failure_Inr)
  qed
qed

text \<open>
  C6 (as amended). For a workbook that is processed locally, when the conversion of a
  sheet raises, or when no sheet is left non-empty (every sheet is read and is empty
  after the all-null columns and rows are dropped), the JSON is never uploaded: the
  store is unchanged but for at most one line appended to the error log. If the storage
  calls of \<open>log_error\<close> do not raise, then in the first case \<open>parse\<close> returns the
  failure string with the message of the failing sheet logged, and in the second it
  returns the failure string with \<open>No valid data found in the Excel file.\<close> logged. An
  exception leaves \<open>parse\<close> only when \<open>log_error\<close> raised it, and then nothing was
  written.
\<close>

theorem sheet_failure_aborts:
  "processed_locally ev p st xls \<longrightarrow>
     ((\<exists>n \<in> set (sheet_names xls). \<not> table_parses xls n)
        \<or> (\<forall>n \<in> set (sheet_names xls). table_parses xls n \<and> \<not> non_empty_sheet xls n) \<longrightarrow>
      (snd (parse ev p st) = st
        \<or> (\<exists>m. snd (parse ev p st) = with_log st (error_id p) m)))
     \<and> (log_writable ev p \<longrightarrow>
          ((\<exists>n \<in> set (sheet_names xls). \<not> table_parses xls n) \<longrightarrow>
             (\<exists>n e. n \<in> set (sheet_names xls) \<and> parse_sheet xls n Header0 = Inl e
                \<and> parse ev p st =
                    (Inr (PStr failed_message), with_log st (error_id p) (sheet_message n e))))
          \<and> ((\<forall>n \<in> set (sheet_names xls). table_parses xls n \<and> \<not> non_empty_sheet xls n) \<longrightarrow>
               parse ev p st =
                 (Inr (PStr failed_message),
                  with_log st (error_id p)
                    (file_message p (Exn ValueError ''No valid data found in the Excel file.'')))))
     \<and> (parse ev p st = (Inl e, st') \<longrightarrow>
          st' = st \<and> (\<exists>m. log_error ev p m st = (Inl e, st)))"
proof (intro impI conjI)
  assume pl: "processed_locally ev p st xls"
  note eq = parse_locally [OF pl]
  {
    assume "(\<exists>n \<in> set (sheet_names xls). \<not> table_parses xls n)
        \<or> (\<forall>n \<in> set (sheet_names xls). table_parses xls n \<and> \<not> non_empty_sheet xls n)"
    then have c: "(\<exists>n e. convert_sheets xls (sheet_names xls) [] = Inl (n, e))
        \<or> convert_sheets xls (sheet_names xls) [] = Inr []"
      using convert_sheets_fail [of "sheet_names xls" xls "[]"]
        convert_sheets_all_empty [of "sheet_names xls" xls "[]"] by blast
    then obtain n e where "convert_sheets xls (sheet_names xls) [] = Inl (n, e)
        \<or> convert_sheets xls (sheet_names xls) [] = Inr []" by blast
    from process_simple_store [OF this, of ev p st]
    show "snd (parse ev p st) = st \<or> (\<exists>m. snd (parse ev p st) = with_log st (error_id p) m)"
    proof
      assume "snd (process_simple ev p xls st) = st \<and> (\<exists>e'. fst (process_simple ev p xls st) = Inl e')"
      then obtain e' where "process_simple ev p xls st = (Inl e', st)"
        by (cases "process_simple ev p xls st") auto
      then show ?thesis
        using handle_failure_store [of ev p e' st] by (auto simp: eq)
    next
      assume "\<exists>m. process_simple ev p xls st = (Inr (PStr failed_message), with_log st (error_id p) m)"
      then show ?thesis by (auto simp: eq handle_failure_Inr)
    qed
  }
  assume lw: "log_writable ev p"
  {
    assume "\<exists>n \<in> set (sheet_names xls). \<not> table_parses xls n"
    from convert_sheets_fail [OF this, of "[]"] obtain n e where
      ne: "n \<in> set (sheet_names xls)" "parse_sheet xls n Header0 = Inl e"
        "convert_sheets xls (sheet_names xls) [] = Inl (n, e)" by blast
    have "parse ev p st = (Inr (PStr failed_message), with_log st (error_id p) (sheet_message n e))"
      by (simp add: eq process_simple_sheet_fail [OF ne(3) lw] handle_failure_Inr)
    with ne show "\<exists>n e. n \<in> set (sheet_names xls) \<and> parse_sheet xls n Header0 = Inl e
        \<and> parse ev p st = (Inr (PStr failed_message), with_log st (error_id p) (sheet_message n e))"
      by blast
  }
  {
    assume "\<forall>n \<in> set (sheet_names xls). table_parses xls n \<and> \<not> non_empty_sheet xls n"
    from convert_sheets_all_empty [OF this, of "[]"]
    have "convert_sheets xls (sheet_names xls) [] = Inr []" .
    then show "parse ev p st =
        (Inr (PStr failed_message),
         with_log st (error_id p)
           (file_message p (Exn ValueError ''No valid data found in the Excel file.'')))"
      by (simp add: eq process_simple_no_data handle_failure_logged [OF lw])
  }
next
  assume "parse ev p st = (Inl e, st')"
  then have "st' = st \<and> (\<exists>m. log_error ev p m st = (Inl e, st))"
    by (rule parse_raised_by_log)
  then show "st' = st" and "\<exists>m. log_error ev p m st = (Inl e, st)"
    by simp_all
qed


lemma fixture_tables:
  "\<not> table_parses broken_workbook ''Sheet2''"
  "table_parses null_workbook ''Sheet1''"
  "\<not> non_empty_sheet null_workbook ''Sheet1''"
  by code_simp+

lemma fixture_names:
  "sheet_names broken_workbook = [''Sheet1'', ''Sheet2'']"
  "sheet_names null_workbook = [''Sheet1'']"
  "sheet_names doc_workbook = [''Sheet1'']"
  "sheet_names gap_workbook = [''Sheet1'']"
  by (simp_all add: broken_workbook_def null_workbook_def doc_workbook_def gap_workbook_def
      workbook_of_def)

lemma fixture_writable: "log_writable (env_of xls answer no_faults) p"
  by (simp add: log_writable_def env_of_def no_faults_def)

theorem sheet_failure_aborts_witness:
  "processed_locally (env_of broken_workbook unreachable no_faults) test_parser test_store broken_workbook
   \<and> \<not> table_parses broken_workbook ''Sheet2''
   \<and> fst (parse (env_of broken_workbook unreachable no_faults) test_parser test_store)
       = Inr (PStr failed_message)
   \<and> snd (parse (env_of broken_workbook unreachable no_faults) test_parser test_store)
       (''xlsx-test-bucket'', ''test.json'') = None
   \<and> processed_locally (env_of null_workbook unreachable no_faults) test_parser test_store null_workbook
   \<and> \<not> non_empty_sheet null_workbook ''Sheet1''
   \<and> parse (env_of null_workbook unreachable no_faults) test_parser test_store
       = (Inr (PStr failed_message),
          with_log test_store (error_id test_parser)
            ''Error processing file test.xlsx: No valid data found in the Excel file.'')
   \<and> processed_locally (env_of broken_workbook unreachable log_denied) test_parser test_store
        broken_workbook
   \<and> parse (env_of broken_workbook unreachable log_denied) test_parser test_store
       = (Inl (Exn StorageError ''403 Forbidden''), test_store)"
proof -
  let ?b = "env_of broken_workbook unreachable no_faults"
  let ?n = "env_of null_workbook unreachable no_faults"
  let ?d = "env_of broken_workbook unreachable log_denied"
  have ids: "error_id test_parser = (''xlsx-test-bucket'', ''test_error.log'')"
    by (simp add: error_id_def test_parser_def)
  have fm: "file_message test_parser (Exn ValueError ''No valid data found in the Excel file.'')
      = ''Error processing file test.xlsx: No valid data found in the Excel file.''"
    by (simp add: file_message_def test_parser_def)
  have pre_b: "\<exists>n \<in> set (sheet_names broken_workbook). \<not> table_parses broken_workbook n"
    using fixture_tables(1) by (simp add: fixture_names(1))
  have pre_n: "\<forall>n \<in> set (sheet_names null_workbook).
      table_parses null_workbook n \<and> \<not> non_empty_sheet null_workbook n"
    using fixture_tables(2,3) by (simp add: fixture_names(2))
  have "\<exists>n e. parse ?b test_parser test_store =
      (Inr (PStr failed_message), with_log test_store (error_id test_parser) (sheet_message n e))"
    using sheet_failure_aborts [of ?b test_parser test_store broken_workbook]
      fixture_local(3) fixture_writable pre_b by blast
  then obtain n e where b: "parse ?b test_parser test_store =
      (Inr (PStr failed_message), with_log test_store (error_id test_parser) (sheet_message n e))"
    by blast
  have b1: "fst (parse ?b test_parser test_store) = Inr (PStr failed_message)"
    by (simp add: b)
  have b2: "snd (parse ?b test_parser test_store) (''xlsx-test-bucket'', ''test.json'') = None"
    unfolding b by (simp add: with_log_def ids test_store_def)
  have "parse ?n test_parser test_store
       = (Inr (PStr failed_message),
          with_log test_store (error_id test_parser)
            (file_message test_parser (Exn ValueError ''No valid data found in the Excel file.'')))"
    using sheet_failure_aborts [of ?n test_parser test_store null_workbook]
      fixture_local(2) fixture_writable pre_n by blast
  then have n1: "parse ?n test_parser test_store
       = (Inr (PStr failed_message),
          with_log test_store (error_id test_parser)
            ''Error processing file test.xlsx: No valid data found in the Excel file.'')"
    by (simp only: fm)
  have "fst (parse ?d test_parser test_store) = Inl (Exn StorageError ''403 Forbidden'')"
    by code_simp
  then have d0: "parse ?d test_parser test_store
      = (Inl (Exn StorageError ''403 Forbidden''), snd (parse ?d test_parser test_store))"
    by (metis prod.collapse)
  have "snd (parse ?d test_parser test_store) = test_store"
    using sheet_failure_aborts [of ?d test_parser test_store broken_workbook
        "Exn StorageError ''403 Forbidden''" "snd (parse ?d test_parser test_store)"]
      fixture_local(3) d0 by blast
  then have d1: "parse ?d test_parser test_store
      = (Inl (Exn StorageError ''403 Forbidden''), test_store)"
    using d0 by simp
  show ?thesis
    using fixture_local(2,3) fixture_tables b1 b2 n1 d1 by blast
qed

text \<open>
  The claim as stated fails when the error log cannot be written: the second sheet
  fails to convert, every upload of the log blob raises, and \<open>parse\<close> neither logs
  the error nor returns the failure string; the exception of the upload leaves it.
\<close>

theorem sheet_failure_unlogged_counterexample:
  "processed_locally (env_of broken_workbook unreachable log_denied) test_parser test_store broken_workbook
   \<and> \<not> table_parses broken_workbook ''Sheet2''
   \<and> fst (parse (env_of broken_workbook unreachable log_denied) test_parser test_store)
       = Inl (Exn StorageError ''403 Forbidden'')
   \<and> snd (parse (env_of broken_workbook unreachable log_denied) test_parser test_store)
       (''xlsx-test-bucket'', ''test_error.log'') = None"
proof -
  have "fst (parse (env_of broken_workbook unreachable log_denied) test_parser test_store)
       = Inl (Exn StorageError ''403 Forbidden'')"
    "snd (parse (env_of broken_workbook unreachable log_denied) test_parser test_store)
       (''xlsx-test-bucket'', ''test_error.log'') = None"
    by code_simp+
  then show ?thesis using fixture_local(3) fixture_tables(1) by blast
qed

section \<open>No exception leaves the parser while the log can be written\<close>

lemma parse_returns:
  "log_writable ev p \<Longrightarrow> \<exists>v st'. parse ev p st = (Inr v, st')"
proof -
  assume lw: "log_writable ev p"
  obtain r st' where pb: "parse_body ev p st = (r, st')" by (cases "parse_body ev p st")
  show ?thesis
  proof (cases r)
    case (Inl e)
    then show ?thesis using handle_failure_logged [OF lw] by (simp add: parse_def pb)
  next
    case (Inr v)
    then show ?thesis by (simp add: parse_def pb handle_failure_Inr)
  qed
qed

lemma parse_raised:
  "log_writable ev p \<Longrightarrow> parse_body ev p st = (Inl e, st') \<Longrightarrow>
   parse ev p st = (Inr (PStr failed_message), with_log st (error_id p) (file_message p e))"
  using parse_body_Inl [of ev p st e st'] by (simp add: parse_def handle_failure_logged)

lemma failed_sheet:
  "log_writable ev p \<Longrightarrow> processed_locally ev p st xls \<Longrightarrow>
   \<exists>n \<in> set (sheet_names xls). \<not> table_parses xls n \<Longrightarrow>
   fst (parse ev p st) = Inr (PStr failed_message)"
proof -
  assume lw: "log_writable ev p" and pl: "processed_locally ev p st xls"
    and "\<exists>n \<in> set (sheet_names xls). \<not> table_parses xls n"
  from convert_sheets_fail [OF this(3), of "[]"] obtain n e where
    "convert_sheets xls (sheet_names xls) [] = Inl (n, e)" by blast
  from process_simple_sheet_fail [OF this lw] show ?thesis
    by (simp add: parse_locally [OF pl] handle_failure_Inr)
qed

lemma failed_upload:
  "log_writable ev p \<Longrightarrow> processed_locally ev p st xls \<Longrightarrow>
   convert_sheets xls (sheet_names xls) [] = Inr d \<Longrightarrow> d \<noteq> [] \<Longrightarrow>
   upload_fault ev (destination_id p) = Some e \<Longrightarrow>
   fst (parse ev p st) = Inr (PStr failed_message)"
  by (simp add: parse_locally process_simple_def upload_from_string_def destination_id_def
      handle_failure_logged)

text \<open>
  C10. If the storage calls of \<open>log_error\<close> on the error-log blob do not raise, then
  \<open>parse\<close> returns a value for every input; an exception that leaves the body of the
  \<open>try\<close> is logged and turned into \<open>Failed to process XLSX file.\<close>, and so are a
  missing source blob, an empty download, a decode failure, a failing sheet, a result
  with no sheet and a failing upload of the JSON. So a request of the HTTP trigger that
  reaches \<open>parse\<close> is answered with status 200.
\<close>

theorem parse_never_raises:
  "(log_writable ev p \<longrightarrow>
      (\<exists>v st'. parse ev p st = (Inr v, st'))
      \<and> (parse_body ev p st = (Inl e, st') \<longrightarrow>
           parse ev p st =
             (Inr (PStr failed_message), with_log st (error_id p) (file_message p e)))
      \<and> (blob_exists ev (bucket_name p, source_blob p) st = Inr False \<longrightarrow>
           fst (parse ev p st) = Inr (PStr failed_message))
      \<and> (blob_exists ev (bucket_name p, source_blob p) st = Inr True
           \<and> download_as_bytes ev (bucket_name p, source_blob p) st = Inr [] \<longrightarrow>
           fst (parse ev p st) = Inr (PStr failed_message))
      \<and> (blob_exists ev (bucket_name p, source_blob p) st = Inr True
           \<and> download_as_bytes ev (bucket_name p, source_blob p) st = Inr excel_data
           \<and> excel_data \<noteq> [] \<and> open_workbook ev p excel_data = Inl e \<longrightarrow>
           fst (parse ev p st) = Inr (PStr failed_message))
      \<and> (processed_locally ev p st xls
           \<and> (\<exists>n \<in> set (sheet_names xls). \<not> table_parses xls n) \<longrightarrow>
           fst (parse ev p st) = Inr (PStr failed_message))
      \<and> (processed_locally ev p st xls \<and> convert_sheets xls (sheet_names xls) [] = Inr [] \<longrightarrow>
           fst (parse ev p st) = Inr (PStr failed_message))
      \<and> (processed_locally ev p st xls \<and> convert_sheets xls (sheet_names xls) [] = Inr d
           \<and> d \<noteq> [] \<and> upload_fault ev (destination_id p) = Some e \<longrightarrow>
           fst (parse ev p st) = Inr (PStr failed_message)))
   \<and> (truthy j \<and> py_get j ''bucket'' PNone = Inr bv \<and> truthy bv
        \<and> py_get j ''name'' PNone = Inr (PStr src) \<and> src \<noteq> []
        \<and> make_bucket ev bv = Inr b \<and> log_writable ev (http_parser b src) \<longrightarrow>
      status (fst (convert_xlsx_to_json_http ev (Some j) st)) = 200)"
proof (intro conjI impI)
  assume lw: "log_writable ev p"
  show "\<exists>v st'. parse ev p st = (Inr v, st')"
    using lw by (rule parse_returns)
  {
    assume "parse_body ev p st = (Inl e, st')"
    with lw show "parse ev p st =
        (Inr (PStr failed_message), with_log st (error_id p) (file_message p e))"
      by (rule parse_raised)
  }
  {
    assume "blob_exists ev (bucket_name p, source_blob p) st = Inr False"
    then show "fst (parse ev p st) = Inr (PStr failed_message)"
      by (simp add: parse_def parse_body_def handle_failure_logged [OF lw])
  }
  {
    assume "blob_exists ev (bucket_name p, source_blob p) st = Inr True
           \<and> download_as_bytes ev (bucket_name p, source_blob p) st = Inr []"
    then show "fst (parse ev p st) = Inr (PStr failed_message)"
      by (simp add: parse_def parse_body_def handle_failure_logged [OF lw])
  }
  {
    assume "blob_exists ev (bucket_name p, source_blob p) st = Inr True
           \<and> download_as_bytes ev (bucket_name p, source_blob p) st = Inr excel_data
           \<and> excel_data \<noteq> [] \<and> open_workbook ev p excel_data = Inl e"
    then show "fst (parse ev p st) = Inr (PStr failed_message)"
      by (simp add: parse_def parse_body_def handle_failure_logged [OF lw])
  }
  {
    assume "processed_locally ev p st xls
           \<and> (\<exists>n \<in> set (sheet_names xls). \<not> table_parses xls n)"
    then show "fst (parse ev p st) = Inr (PStr failed_message)"
      using failed_sheet [OF lw] by blast
  }
  {
    assume "processed_locally ev p st xls \<and> convert_sheets xls (sheet_names xls) [] = Inr []"
    then have "processed_locally ev p st xls" "convert_sheets xls (sheet_names xls) [] = Inr []"
      by simp_all
    then show "fst (parse ev p st) = Inr (PStr failed_message)"
      by (simp add: parse_locally [of ev p st xls] process_simple_no_data
          handle_failure_logged [OF lw])
  }
  {
    assume "processed_locally ev p st xls \<and> convert_sheets xls (sheet_names xls) [] = Inr d
           \<and> d \<noteq> [] \<and> upload_fault ev (destination_id p) = Some e"
    then show "fst (parse ev p st) = Inr (PStr failed_message)"
      using failed_upload [OF lw] by blast
  }
next
  assume a: "truthy j \<and> py_get j ''bucket'' PNone = Inr bv \<and> truthy bv
        \<and> py_get j ''name'' PNone = Inr (PStr src) \<and> src \<noteq> []
        \<and> make_bucket ev bv = Inr b \<and> log_writable ev (http_parser b src)"
  then obtain v st' where "parse ev (http_parser b src) st = (Inr v, st')"
    using parse_returns by blast
  with a show "status (fst (convert_xlsx_to_json_http ev (Some j) st)) = 200"
    by (simp add: convert_xlsx_to_json_http_def http_body_def)
qed


theorem parse_never_raises_witness:
  "log_writable (env_of null_workbook unreachable no_faults) test_parser
   \<and> (\<exists>v st'. parse (env_of null_workbook unreachable no_faults) test_parser test_store = (Inr v, st'))
   \<and> blob_exists (env_of null_workbook unreachable no_faults)
        (bucket_name test_parser, source_blob test_parser) Map.empty = Inr False
   \<and> fst (parse (env_of null_workbook unreachable no_faults) test_parser Map.empty)
        = Inr (PStr failed_message)
   \<and> status (fst (convert_xlsx_to_json_http (env_of null_workbook unreachable no_faults)
        (Some (PDict [(''bucket'', PStr ''xlsx-test-bucket''), (''name'', PStr ''test.xlsx'')]))
        test_store)) = 200"
proof -
  let ?ev = "env_of null_workbook unreachable no_faults"
  let ?j = "PDict [(''bucket'', PStr ''xlsx-test-bucket''), (''name'', PStr ''test.xlsx'')]"
  have lw: "log_writable ?ev test_parser"
    by (rule fixture_writable)
  have ex: "blob_exists ?ev (bucket_name test_parser, source_blob test_parser) Map.empty = Inr False"
    by (simp add: blob_exists_def env_of_def)
  have rq: "truthy ?j \<and> py_get ?j ''bucket'' PNone = Inr (PStr ''xlsx-test-bucket'')
      \<and> truthy (PStr ''xlsx-test-bucket'')
      \<and> py_get ?j ''name'' PNone = Inr (PStr ''test.xlsx'') \<and> ''test.xlsx'' \<noteq> []
      \<and> make_bucket ?ev (PStr ''xlsx-test-bucket'') = Inr ''xlsx-test-bucket''
      \<and> log_writable ?ev (http_parser ''xlsx-test-bucket'' ''test.xlsx'')"
    by (simp add: env_of_def bucket_of_def fixture_writable [unfolded env_of_def])
  have 1: "\<exists>v st'. parse ?ev test_parser test_store = (Inr v, st')"
    using parse_never_raises [of ?ev test_parser test_store] lw by blast
  have 2: "fst (parse ?ev test_parser Map.empty) = Inr (PStr failed_message)"
    using parse_never_raises [of ?ev test_parser Map.empty] lw ex by blast
  have 3: "status (fst (convert_xlsx_to_json_http ?ev (Some ?j) test_store)) = 200"
    using parse_never_raises [of ?ev test_parser test_store _ _ _ _ _ ?j
        "PStr ''xlsx-test-bucket''" "''test.xlsx''" "''xlsx-test-bucket''"] rq by blast
  show ?thesis using lw ex 1 2 3 by blast
qed


section \<open>The HTTP trigger\<close>

text \<open>
  C8 (as amended). A request whose body does not parse (\<open>get_json\<close> returns \<open>None\<close>),
  or parses to a value that is false in Python, the empty object \<open>{}\<close> among them, is
  answered with status 400 and \<open>{"error": "Invalid JSON payload"}\<close>. A non-empty JSON
  object in which \<open>bucket\<close> or \<open>name\<close> is missing or false (empty) is answered with 400
  and \<open>{"error": "Missing required parameters"}\<close>. A non-empty object with a true
  \<open>bucket\<close> and a non-empty string \<open>name\<close>, for which the bucket is made and \<open>parse\<close>
  returns \<open>v\<close>, is answered with 200 and \<open>{"message": v}\<close>. An exception \<open>e\<close> that
  leaves the body of the \<open>try\<close> is answered with 500 and \<open>{"error": str(e)}\<close>.
\<close>

theorem http_trigger_responses:
  "(request_json = None \<or> (\<exists>j. request_json = Some j \<and> \<not> truthy j) \<longrightarrow>
      convert_xlsx_to_json_http ev request_json st
        = (error_response ''Invalid JSON payload'' 400, st))
   \<and> (kvs \<noteq> []
        \<and> (map_of kvs ''bucket'' = None \<or> map_of kvs ''name'' = None
             \<or> (\<exists>v. map_of kvs ''bucket'' = Some v \<and> \<not> truthy v)
             \<or> (\<exists>v. map_of kvs ''name'' = Some v \<and> \<not> truthy v)) \<longrightarrow>
      convert_xlsx_to_json_http ev (Some (PDict kvs)) st
        = (error_response ''Missing required parameters'' 400, st))
   \<and> (kvs \<noteq> [] \<and> map_of kvs ''bucket'' = Some bv \<and> truthy bv
        \<and> map_of kvs ''name'' = Some (PStr src) \<and> src \<noteq> []
        \<and> make_bucket ev bv = Inr b \<and> parse ev (http_parser b src) st = (Inr v, st') \<longrightarrow>
      convert_xlsx_to_json_http ev (Some (PDict kvs)) st
        = (\<lparr>body = PDict [(''message'', v)], status = 200\<rparr>, st'))
   \<and> (http_body ev request_json st = (Inl e, st') \<longrightarrow>
      convert_xlsx_to_json_http ev request_json st = (error_response (str_exn e) 500, st'))"
  by (auto simp: convert_xlsx_to_json_http_def http_body_def split: option.splits)


theorem http_trigger_responses_witness:
  "convert_xlsx_to_json_http (env_of doc_workbook unreachable no_faults) None test_store
     = (error_response ''Invalid JSON payload'' 400, test_store)
   \<and> convert_xlsx_to_json_http (env_of doc_workbook unreachable no_faults)
       (Some (PDict [(''bucket'', PStr ''xlsx-test-bucket'')])) test_store
     = (error_response ''Missing required parameters'' 400, test_store)
   \<and> fst (convert_xlsx_to_json_http (env_of doc_workbook unreachable no_faults)
       (Some (PDict [(''bucket'', PStr ''xlsx-test-bucket''), (''name'', PStr ''test.xlsx'')]))
       test_store)
     = \<lparr>body = PDict [(''message'', PStr created_message)], status = 200\<rparr>
   \<and> convert_xlsx_to_json_http (env_of doc_workbook unreachable no_faults)
       (Some (PList [PScalar (SInt 1)])) test_store
     = (error_response ([CHR 0x27] @ ''list'' @ [CHR 0x27] @ '' object has no attribute '' @ [CHR 0x27] @ ''get'' @ [CHR 0x27]) 500, test_store)"
proof -
  let ?ev = "env_of doc_workbook unreachable no_faults"
  let ?kvs = "[(''bucket'', PStr ''xlsx-test-bucket''), (''name'', PStr ''test.xlsx'')]"
  let ?r = "parse ?ev (http_parser ''xlsx-test-bucket'' ''test.xlsx'') test_store"
  have "fst ?r = Inr (PStr created_message)"
    by code_simp
  then have p: "?r = (Inr (PStr created_message), snd ?r)"
    by (metis prod.collapse)
  have mb: "make_bucket ?ev (PStr ''xlsx-test-bucket'') = Inr ''xlsx-test-bucket''"
    by (simp add: env_of_def bucket_of_def)
  have hb: "http_body ?ev (Some (PList [PScalar (SInt 1)])) test_store
      = (Inl (Exn AttributeError ([CHR 0x27] @ ''list'' @ [CHR 0x27] @ '' object has no attribute '' @ [CHR 0x27] @ ''get'' @ [CHR 0x27])), test_store)"
    by (simp add: http_body_def)
  have 1: "convert_xlsx_to_json_http ?ev None test_store
      = (error_response ''Invalid JSON payload'' 400, test_store)"
    using http_trigger_responses [of None ?ev test_store] by simp
  have 2: "convert_xlsx_to_json_http ?ev (Some (PDict [(''bucket'', PStr ''xlsx-test-bucket'')]))
        test_store
      = (error_response ''Missing required parameters'' 400, test_store)"
    using http_trigger_responses [of _ ?ev test_store "[(''bucket'', PStr ''xlsx-test-bucket'')]"]
    by simp
  have 3: "convert_xlsx_to_json_http ?ev (Some (PDict ?kvs)) test_store
      = (\<lparr>body = PDict [(''message'', PStr created_message)], status = 200\<rparr>, snd ?r)"
    using http_trigger_responses [of _ ?ev test_store ?kvs "PStr ''xlsx-test-bucket''"
        "''test.xlsx''" "''xlsx-test-bucket''" "PStr created_message" "snd ?r"] mb p
    by simp
  have 4: "convert_xlsx_to_json_http ?ev (Some (PList [PScalar (SInt 1)])) test_store
      = (error_response ([CHR 0x27] @ ''list'' @ [CHR 0x27] @ '' object has no attribute '' @ [CHR 0x27] @ ''get'' @ [CHR 0x27]) 500, test_store)"
    using http_trigger_responses [where request_json = "Some (PList [PScalar (SInt 1)])"
        and ev = ?ev and st = test_store and st' = test_store
        and e = "Exn AttributeError ([CHR 0x27] @ ''list'' @ [CHR 0x27]
          @ '' object has no attribute '' @ [CHR 0x27] @ ''get'' @ [CHR 0x27])"] hb
    by simp
  show ?thesis using 1 2 3 4 by simp
qed

text \<open>
  The claim as stated fails for the empty object: \<open>not request_json\<close> is true for
  \<open>{}\<close>, so line 177 answers \<open>Invalid JSON payload\<close>.
\<close>

theorem http_empty_object_counterexample:
  "convert_xlsx_to_json_http (env_of doc_workbook unreachable no_faults) (Some (PDict [])) test_store
     = (\<lparr>body = PDict [(''error'', PStr ''Invalid JSON payload'')], status = 400\<rparr>, test_store)
   \<and> body (fst (convert_xlsx_to_json_http (env_of doc_workbook unreachable no_faults)
              (Some (PDict [])) test_store))
     \<noteq> PDict [(''error'', PStr ''Missing required parameters'')]"
  by (simp add: convert_xlsx_to_json_http_def http_body_def error_response_def)

section \<open>Concrete runs\<close>

text \<open>
  C9. For the one-sheet workbook of \<open>test_xlsx_correct_headers\<close> (columns \<open>Title\<close> and
  \<open>Date\<close>, one row \<open>Doc1\<close>, \<open>2025-02-10\<close>), \<open>parse\<close> succeeds, and decoding the text
  it uploaded to the destination blob gives, for the sheet, the record sequence
  \<open>[{"Title": "Doc1", "Date": "2025-02-10"}]\<close>.
\<close>

theorem round_trip_doc:
  "fst (parse (env_of doc_workbook unreachable no_faults) test_parser test_store)
     = Inr (PStr created_message)
   \<and> Option.bind
       (snd (parse (env_of doc_workbook unreachable no_faults) test_parser test_store)
          (destination_id test_parser))
       json_loads
     = Some (PDict [(''Sheet1'',
               PList [PDict [(''Title'', PStr ''Doc1''), (''Date'', PStr ''2025-02-10'')]])])
   \<and> Option.bind
       (Option.bind
          (snd (parse (env_of doc_workbook unreachable no_faults) test_parser test_store)
             (destination_id test_parser))
          json_loads)
       (\<lambda>v. case py_getitem v ''Sheet1'' of Inl e \<Rightarrow> None | Inr records \<Rightarrow> Some records)
     = Some (PList [PDict [(''Title'', PStr ''Doc1''), (''Date'', PStr ''2025-02-10'')]])"
  by code_simp

text \<open>
  C5. What the code does at a table with a missing cell, converted locally after the
  remote parser answered with an error: the float \<open>nan\<close> of the missing cell is
  written as the token \<open>NaN\<close> and not as \<open>null\<close>, because \<open>json.dumps\<close> writes a float
  itself and never hands it to \<open>json_serializer\<close>. A \<open>Timestamp\<close> is written as its
  date, and \<open>NaT\<close>, which does reach \<open>json_serializer\<close>, as \<open>null\<close>.
\<close>

theorem missing_cell_renders_NaN:
  "dumps_scalar SNaN = ''NaN''
   \<and> json_dumps (to_dict_records (dropna_rows (dropna_columns gap_table)))
       = json_dumps (PList [PDict [(''Title'', PStr ''Doc1''), (''Date'', PScalar SNaN)],
                            PDict [(''Title'', PStr ''Doc2''), (''Date'', PStr ''2025-02-11'')]])
   \<and> fst (parse (env_of gap_workbook remote_500 no_faults) test_parser test_store)
       = Inr (PStr created_message)
   \<and> Option.bind
       (snd (parse (env_of gap_workbook remote_500 no_faults) test_parser test_store)
          (destination_id test_parser))
       json_loads
     = Some (PDict [(''Sheet1'',
               PList [PDict [(''Title'', PStr ''Doc1''), (''Date'', PScalar SNaN)],
                      PDict [(''Title'', PStr ''Doc2''), (''Date'', PStr ''2025-02-11'')]])])
   \<and> dumps_scalar (STimestamp 2025 2 10) = json_str ''2025-02-10''
   \<and> dumps_scalar SNaT = ''null''"
  by code_simp

section \<open>The keys the triggers derive\<close>

text \<open>
  C2. What the code does for a key that ends in \<open>.xls\<close>: the event trigger accepts
  it and derives the destination key \<open>legacy.json\<close>, but its error-log key is the
  source key itself, since line 165 replaces \<open>.xlsx\<close> only; the HTTP trigger (line
  188) replaces both suffixes. Both triggers replace every occurrence of the suffix
  text, not the suffix alone.
\<close>

theorem event_error_key_xls:
  "event_accepts ''legacy.xls''
   \<and> destination_blob (event_parser ''xlsx-test-bucket'' ''legacy.xls'') = ''legacy.json''
   \<and> error_blob (event_parser ''xlsx-test-bucket'' ''legacy.xls'') = ''legacy.xls''
   \<and> error_blob (http_parser ''xlsx-test-bucket'' ''legacy.xls'') = ''legacy_error.log''
   \<and> destination_blob (http_parser ''xlsx-test-bucket'' ''in.xlsx/q1.xlsx'') = ''in.json/q1.json''"
  by code_simp


section \<open>The shape of the conversion result\<close>

lemma dict_set_new: "k \<notin> fst ` set d \<Longrightarrow> dict_set d k v = d @ [(k, v)]"
  unfolding dict_set_def by (induction d) auto

lemma dict_items_keys:
  "fst ` set (foldl (\<lambda>d (k, v). dict_set d k v) d kvs) = fst ` set d \<union> fst ` set kvs"
proof (induction kvs arbitrary: d)
  case Nil
  then show ?case by simp
next
  case (Cons a kvs)
  obtain k v where a: "a = (k, v)" by (cases a)
  have "fst ` set (dict_set d k v) = insert k (fst ` set d)"
    using update_keys [of k v d] unfolding dict_set_def
    by (metis (no_types, lifting) insert_absorb list.set_map set_append list.simps(15)
        Un_insert_right sup_bot.right_neutral empty_set)
  then show ?case using Cons.IH [of "dict_set d k v"] by (auto simp: a)
qed

lemma dict_of_items_keys: "set (dict_keys (PDict (dict_of_items kvs))) = fst ` set kvs"
  using dict_items_keys [of "[]" kvs] by (simp add: dict_of_items_def)

lemma convert_sheets_ok:
  "distinct ns \<Longrightarrow> set ns \<inter> fst ` set d = {} \<Longrightarrow> \<forall>n \<in> set ns. table_parses xls n \<Longrightarrow>
   convert_sheets xls ns d =
     Inr (d @ map (\<lambda>n. (n, to_dict_records (cleaned xls n))) (filter (non_empty_sheet xls) ns))"
proof (induction ns arbitrary: d)
  case Nil
  then show ?case by simp
next
  case (Cons a ns)
  from Cons.prems obtain df where df: "parse_sheet xls a Header0 = Inr df"
    by (auto simp: table_parses_def split: sum.splits)
  have cl: "cleaned xls a = dropna_rows (dropna_columns df)"
    by (simp add: cleaned_def df)
  have tp: "table_parses xls a" by (simp add: table_parses_def df)
  show ?case
  proof (cases "df_empty (dropna_rows (dropna_columns df))")
    case True
    then have "\<not> non_empty_sheet xls a" by (simp add: non_empty_sheet_def cl)
    then show ?thesis
      using Cons.IH [of d] Cons.prems True by (simp add: df)
  next
    case False
    then have ne: "non_empty_sheet xls a" by (simp add: non_empty_sheet_def cl tp)
    have new: "dict_set d a (to_dict_records (dropna_rows (dropna_columns df)))
        = d @ [(a, to_dict_records (cleaned xls a))]"
      using Cons.prems by (simp add: dict_set_new cl)
    have "set ns \<inter> fst ` set (d @ [(a, to_dict_records (cleaned xls a))]) = {}"
      using Cons.prems by auto
    from Cons.IH [OF _ this] Cons.prems show ?thesis
      by (simp add: df False new ne)
  qed
qed

lemma kept_cells:
  assumes "r \<in> set (rows df)" "length r = length (columns df)"
  shows "list_all isna (map (cell_at r) (kept_columns df)) = list_all isna r"
proof
  assume k: "list_all isna (map (cell_at r) (kept_columns df))"
  have "isna (r ! j)" if "j < length r" for j
  proof (cases "j \<in> set (kept_columns df)")
    case True
    then have "isna (cell_at r j)" using k by (simp add: list_all_iff)
    then show ?thesis using that by (simp add: cell_at_def)
  next
    case False
    then have "isna (cell_at r j)"
      using that assms by (auto simp: kept_columns_def)
    then show ?thesis using that by (simp add: cell_at_def)
  qed
  then show "list_all isna r" by (simp add: list_all_length)
next
  assume a: "list_all isna r"
  have "isna (cell_at r j)" if "j \<in> set (kept_columns df)" for j
  proof -
    from that have "j < length r" using assms by (simp add: kept_columns_def)
    then show ?thesis using a by (simp add: cell_at_def list_all_length)
  qed
  then show "list_all isna (map (cell_at r) (kept_columns df))" by (simp add: list_all_iff)
qed

lemma cleaned_records:
  assumes "well_formed df"
  shows "to_dict_records (dropna_rows (dropna_columns df))
     = PList (map (row_record df) (filter (\<lambda>r. \<not> list_all isna r) (rows df)))"
proof -
  have "filter (\<lambda>r'. \<not> list_all isna r') (map (\<lambda>r. map (cell_at r) (kept_columns df)) (rows df))
      = map (\<lambda>r. map (cell_at r) (kept_columns df)) (filter (\<lambda>r. \<not> list_all isna r) (rows df))"
    unfolding filter_map comp_def
    by (rule arg_cong [where f = "map _"], rule filter_cong)
      (use assms kept_cells in \<open>auto simp: well_formed_def list_all_iff\<close>)
  then show ?thesis
    by (simp add: to_dict_records_def dropna_rows_def dropna_columns_def row_record_def comp_def)
qed

lemma null_column_absent:
  assumes "distinct (columns df)" "j < length (columns df)"
    "\<forall>r \<in> set (rows df). isna (cell_at r j)"
  shows "columns df ! j \<notin> set (dict_keys (row_record df r))"
proof -
  have "j \<notin> set (kept_columns df)"
    using assms(3) by (auto simp: kept_columns_def)
  moreover have "set (kept_columns df) \<subseteq> {..<length (columns df)}"
    by (auto simp: kept_columns_def)
  ultimately have "columns df ! j \<notin> (\<lambda>i. columns df ! i) ` set (kept_columns df)"
    using assms(1,2) by (auto simp: nth_eq_iff_index_eq)
  moreover have "set (dict_keys (row_record df r)) \<subseteq> (\<lambda>i. columns df ! i) ` set (kept_columns df)"
    unfolding row_record_def dict_of_items_keys by (auto dest: set_zip_leftD)
  ultimately show ?thesis by blast
qed


lemma cleaned_table:
  "table_parses xls n \<Longrightarrow> cleaned xls n = dropna_rows (dropna_columns (table_of xls n))"
  by (auto simp: table_parses_def cleaned_def table_of_def split: sum.splits)

lemma process_simple_created:
  "convert_sheets xls (sheet_names xls) [] = Inr d \<Longrightarrow> d \<noteq> [] \<Longrightarrow>
   upload_fault ev (destination_id p) = None \<Longrightarrow>
   process_simple ev p xls st =
     (Inr (PStr created_message), st(destination_id p \<mapsto> json_dumps (PDict d)))"
  by (simp add: process_simple_def upload_from_string_def destination_id_def)

text \<open>
  C7. Take a workbook that is processed locally, with distinct sheet names, every sheet
  of which is read as a well-formed table with distinct column labels, at least one of
  them non-empty, and let the upload succeed. Then \<open>parse\<close> succeeds and uploads the
  JSON of a \<open>data_dict\<close> whose keys are exactly the names of the sheets that are
  non-empty after the all-null columns and rows are dropped, without repetition and in
  workbook order. Under each key stand the records of the rows of the sheet that are
  not all-null, in their original order, and the label of a column that is null in
  every row is a key of none of them.
\<close>

theorem conversion_result_shape:
  "processed_locally ev p st xls \<and> distinct (sheet_names xls)
   \<and> (\<forall>n \<in> set (sheet_names xls).
         table_parses xls n \<and> well_formed (table_of xls n) \<and> distinct (columns (table_of xls n)))
   \<and> (\<exists>n \<in> set (sheet_names xls). non_empty_sheet xls n)
   \<and> upload_fault ev (destination_id p) = None \<longrightarrow>
   (\<exists>d. parse ev p st =
          (Inr (PStr created_message), st(destination_id p \<mapsto> json_dumps (PDict d)))
      \<and> map fst d = filter (non_empty_sheet xls) (sheet_names xls)
      \<and> distinct (map fst d)
      \<and> (\<forall>n \<in> set (map fst d).
            map_of d n =
              Some (PList (map (row_record (table_of xls n))
                             (filter (\<lambda>r. \<not> list_all isna r) (rows (table_of xls n)))))
            \<and> (\<forall>j < length (columns (table_of xls n)).
                  (\<forall>r \<in> set (rows (table_of xls n)). isna (r ! j)) \<longrightarrow>
                  (\<forall>r. columns (table_of xls n) ! j
                          \<notin> set (dict_keys (row_record (table_of xls n) r))))))"
proof
  assume a: "processed_locally ev p st xls \<and> distinct (sheet_names xls)
   \<and> (\<forall>n \<in> set (sheet_names xls).
         table_parses xls n \<and> well_formed (table_of xls n) \<and> distinct (columns (table_of xls n)))
   \<and> (\<exists>n \<in> set (sheet_names xls). non_empty_sheet xls n)
   \<and> upload_fault ev (destination_id p) = None"
  define f where "f = (\<lambda>n. to_dict_records (cleaned xls n))"
  define d where "d = map (\<lambda>n. (n, f n)) (filter (non_empty_sheet xls) (sheet_names xls))"
  have pl: "processed_locally ev p st xls" and dn: "distinct (sheet_names xls)"
    and tp: "\<forall>n \<in> set (sheet_names xls). table_parses xls n"
    and up: "upload_fault ev (destination_id p) = None"
    using a by simp_all
  have conv: "convert_sheets xls (sheet_names xls) [] = Inr d"
    using convert_sheets_ok [OF dn _ tp, of "[]"] by (simp add: d_def f_def)
  have keys: "map fst d = filter (non_empty_sheet xls) (sheet_names xls)"
    by (simp add: d_def comp_def)
  have ne: "d \<noteq> []"
    using a keys by (auto simp: filter_empty_conv simp flip: map_is_Nil_conv [of fst d])
  have 1: "parse ev p st =
      (Inr (PStr created_message), st(destination_id p \<mapsto> json_dumps (PDict d)))"
    by (simp add: parse_locally [OF pl] process_simple_created [OF conv ne up] handle_failure_Inr)
  have 2: "distinct (map fst d)"
    using dn by (simp add: keys)
  have 3: "map_of d n =
        Some (PList (map (row_record (table_of xls n))
                       (filter (\<lambda>r. \<not> list_all isna r) (rows (table_of xls n)))))
      \<and> (\<forall>j < length (columns (table_of xls n)).
            (\<forall>r \<in> set (rows (table_of xls n)). isna (r ! j)) \<longrightarrow>
            (\<forall>r. columns (table_of xls n) ! j \<notin> set (dict_keys (row_record (table_of xls n) r))))"
    if n: "n \<in> set (map fst d)" for n
  proof (intro conjI allI impI)
    from n have nin: "n \<in> set (sheet_names xls)" "non_empty_sheet xls n"
      by (simp_all add: keys)
    then have t: "table_parses xls n" "well_formed (table_of xls n)"
      "distinct (columns (table_of xls n))"
      using a by simp_all
    have "map_of d n = Some (f n)"
      using nin by (simp add: d_def map_of_map_restrict)
    then show "map_of d n =
        Some (PList (map (row_record (table_of xls n))
                       (filter (\<lambda>r. \<not> list_all isna r) (rows (table_of xls n)))))"
      by (simp add: f_def cleaned_table [OF t(1)] cleaned_records [OF t(2)])
    fix j r
    assume j: "j < length (columns (table_of xls n))"
      and nulls: "\<forall>r \<in> set (rows (table_of xls n)). isna (r ! j)"
    have "\<forall>r \<in> set (rows (table_of xls n)). isna (cell_at r j)"
      using nulls j t(2) by (auto simp: cell_at_def well_formed_def list_all_iff)
    from null_column_absent [OF t(3) j this]
    show "columns (table_of xls n) ! j \<notin> set (dict_keys (row_record (table_of xls n) r))" .
  qed
  show "\<exists>d. parse ev p st =
          (Inr (PStr created_message), st(destination_id p \<mapsto> json_dumps (PDict d)))
      \<and> map fst d = filter (non_empty_sheet xls) (sheet_names xls)
      \<and> distinct (map fst d)
      \<and> (\<forall>n \<in> set (map fst d).
            map_of d n =
              Some (PList (map (row_record (table_of xls n))
                             (filter (\<lambda>r. \<not> list_all isna r) (rows (table_of xls n)))))
            \<and> (\<forall>j < length (columns (table_of xls n)).
                  (\<forall>r \<in> set (rows (table_of xls n)). isna (r ! j)) \<longrightarrow>
                  (\<forall>r. columns (table_of xls n) ! j
                          \<notin> set (dict_keys (row_record (table_of xls n) r)))))"
    using 1 keys 2 3 by blast
qed

lemma fixture_mixed:
  "processed_locally (env_of mixed_workbook answer uf) test_parser test_store mixed_workbook"
proof -
  have "detect_complexity mixed_workbook = Inr False" by code_simp
  then show ?thesis
    by (simp add: processed_locally_def blob_exists_def download_as_bytes_def env_of_def
        test_store_def test_parser_def open_workbook_def)
qed

theorem conversion_result_shape_witness:
  "processed_locally (env_of mixed_workbook unreachable no_faults) test_parser test_store
     mixed_workbook
   \<and> sheet_names mixed_workbook = [''Data'', ''Blank'', ''More'']
   \<and> filter (non_empty_sheet mixed_workbook) (sheet_names mixed_workbook) = [''Data'', ''More'']
   \<and> fst (parse (env_of mixed_workbook unreachable no_faults) test_parser test_store)
       = Inr (PStr created_message)
   \<and> Option.bind
       (snd (parse (env_of mixed_workbook unreachable no_faults) test_parser test_store)
          (destination_id test_parser))
       json_loads
     = Some (PDict
         [(''Data'', PList [PDict [(''Title'', PStr ''Doc1''), (''Date'', PStr ''2025-02-10'')],
                            PDict [(''Title'', PStr ''Doc2''), (''Date'', PScalar SNaN)]]),
          (''More'', PList [PDict [(''Title'', PStr ''Doc1''), (''Date'', PStr ''2025-02-10'')]])])"
proof -
  let ?ev = "env_of mixed_workbook unreachable no_faults"
  have names: "sheet_names mixed_workbook = [''Data'', ''Blank'', ''More'']"
    by (simp add: mixed_workbook_def workbook_of_def)
  have tabs: "table_parses mixed_workbook ''Data''" "table_parses mixed_workbook ''Blank''"
    "table_parses mixed_workbook ''More''"
    "well_formed (table_of mixed_workbook ''Data'')"
    "well_formed (table_of mixed_workbook ''Blank'')"
    "well_formed (table_of mixed_workbook ''More'')"
    "distinct (columns (table_of mixed_workbook ''Data''))"
    "distinct (columns (table_of mixed_workbook ''Blank''))"
    "distinct (columns (table_of mixed_workbook ''More''))"
    by code_simp+
  have ne: "non_empty_sheet mixed_workbook ''Data''" "\<not> non_empty_sheet mixed_workbook ''Blank''"
    "non_empty_sheet mixed_workbook ''More''"
    by code_simp+
  have up: "upload_fault ?ev (destination_id test_parser) = None"
    by (simp add: env_of_def no_faults_def)
  have "\<exists>d. parse ?ev test_parser test_store =
      (Inr (PStr created_message),
       test_store(destination_id test_parser \<mapsto> json_dumps (PDict d)))"
    using conversion_result_shape [of ?ev test_parser test_store mixed_workbook]
      fixture_mixed names tabs ne up by auto
  then have 1: "fst (parse ?ev test_parser test_store) = Inr (PStr created_message)"
    by auto
  have 2: "Option.bind (snd (parse ?ev test_parser test_store) (destination_id test_parser))
       json_loads
     = Some (PDict
         [(''Data'', PList [PDict [(''Title'', PStr ''Doc1''), (''Date'', PStr ''2025-02-10'')],
                            PDict [(''Title'', PStr ''Doc2''), (''Date'', PScalar SNaN)]]),
          (''More'', PList [PDict [(''Title'', PStr ''Doc1''), (''Date'', PStr ''2025-02-10'')]])])"
    by code_simp
  have 3: "filter (non_empty_sheet mixed_workbook) (sheet_names mixed_workbook) = [''Data'', ''More'']"
    by (simp add: names ne)
  show ?thesis using fixture_mixed names 1 2 3 by blast
qed


section \<open>Where the naming and rendering rules do hold\<close>

text \<open>
  A key whose only dot is the dot of its suffix: \<open>str.replace\<close> then rewrites the suffix
  alone. The HTTP trigger derives both keys as the naming rule says; the event trigger
  derives the destination key, and the error-log key for \<open>.xlsx\<close> only.
\<close>

lemma replace_from_skip:
  "CHR ''.'' \<notin> set s \<Longrightarrow>
   replace_from (CHR ''.'' # old) new 0 (s @ t) = s @ replace_from (CHR ''.'' # old) new 0 t"
  by (induction s) auto

lemma replace_str_suffix:
  "CHR ''.'' \<notin> set s \<Longrightarrow>
   replace_str (s @ t) (CHR ''.'' # old) new = s @ replace_str t (CHR ''.'' # old) new"
  by (simp add: replace_str_def replace_from_skip)

lemma suffix_rewrites:
  "replace_str ''.xlsx'' ''.xlsx'' ''.json'' = ''.json''"
  "replace_str ''.xlsx'' ''.xlsx'' ''_error.log'' = ''_error.log''"
  "replace_str ''.xls'' ''.xlsx'' ''.json'' = ''.xls''"
  "replace_str ''.xls'' ''.xlsx'' ''_error.log'' = ''.xls''"
  "replace_str ''.xls'' ''.xls'' ''.json'' = ''.json''"
  "replace_str ''.xls'' ''.xls'' ''_error.log'' = ''_error.log''"
  "replace_str ''.json'' ''.xls'' ''.json'' = ''.json''"
  "replace_str ''_error.log'' ''.xls'' ''_error.log'' = ''_error.log''"
  by code_simp+

lemma keys_of_plain_names:
  assumes "CHR ''.'' \<notin> set stem"
  shows "http_parser b (stem @ ''.xlsx'') =
           \<lparr>bucket_name = b, source_blob = stem @ ''.xlsx'',
            destination_blob = stem @ ''.json'', error_blob = stem @ ''_error.log''\<rparr>"
    and "http_parser b (stem @ ''.xls'') =
           \<lparr>bucket_name = b, source_blob = stem @ ''.xls'',
            destination_blob = stem @ ''.json'', error_blob = stem @ ''_error.log''\<rparr>"
    and "event_parser b (stem @ ''.xlsx'') =
           \<lparr>bucket_name = b, source_blob = stem @ ''.xlsx'',
            destination_blob = stem @ ''.json'', error_blob = stem @ ''_error.log''\<rparr>"
    and "event_parser b (stem @ ''.xls'') =
           \<lparr>bucket_name = b, source_blob = stem @ ''.xls'',
            destination_blob = stem @ ''.json'', error_blob = stem @ ''.xls''\<rparr>"
  by (simp_all add: http_parser_def event_parser_def replace_str_suffix [OF assms]
      suffix_rewrites del: append.simps)

text \<open>
  What the encoder writes for each kind of scalar: a \<open>Timestamp\<close> as its date, a
  string as itself, \<open>None\<close> and \<open>NaT\<close> as \<open>null\<close>, another object as its \<open>str\<close>, and
  the float \<open>nan\<close> as \<open>NaN\<close>.
\<close>

lemma scalar_rendering:
  "dumps_scalar (STimestamp y m d) = json_str (strftime_ymd y m d)"
  "dumps_scalar (SStr s) = json_str s"
  "dumps_scalar SNone = ''null''"
  "dumps_scalar SNaT = ''null''"
  "dumps_scalar (SOther s) = json_str s"
  "dumps_scalar SNaN = ''NaN''"
  by (simp_all add: dumps_scalar.simps json_serializer_def)

text \<open>
  An answer of a status other than 200 whose body is JSON but not an object makes
  \<open>forward_to_cloud_run\<close> raise (\<open>get\<close> is a method of dicts only); \<open>parse\<close> then ends
  in its handler and does not fall back.
\<close>

lemma forward_non_object_body:
  "post ev (bucket_name p) (source_blob p) = Inr resp \<Longrightarrow> status_code resp \<noteq> 200 \<Longrightarrow>
   json_result resp = Inr (PList xs) \<Longrightarrow>
   \<exists>m. forward_to_cloud_run ev p = Inl (Exn AttributeError m)"
  by (simp add: forward_to_cloud_run_def catch_request_def)

end
